theory Spec2Isabelle
  imports Main "HOL-Library.Word" "HOL-Library.Signed_Division"
begin

section \<open>dnsredir: the request router of \<^verbatim>\<open>dnsredir.go\<close>\<close>

text \<open>
  The router is effectful Go code. The embedding makes the effects explicit:
  \<^item> the process state is a record \<open>world\<close>: a wall clock in milliseconds, the store of
    host objects (a host is named by its pointer), the package variable
    \<open>initialFinished\<close>, the goroutines started so far, the warnings logged, and the
    trace of the calls the request made to its collaborators;
  \<^item> the collaborators that are not part of \<^verbatim>\<open>dnsredir.go\<close> (the transport's
    \<open>Exchange\<close>, a pool's \<open>Match\<close> and \<open>Select\<close>, the request helpers of CoreDNS, the
    next handler) are parameters: functions of the world in which they are called;
  \<^item> a Go \<open>error\<close> is \<open>error option\<close> (\<open>None\<close> is \<open>nil\<close>), a pointer that may be
    \<open>nil\<close> is an option, a panic is an outcome of its own;
  \<^item> the two \<open>for\<close> loops are \<^theory_text>\<open>partial_function (option)\<close>: a request that never
    returns has the value \<open>None\<close>.
  Time passes only inside \<open>Exchange\<close>: its result says how long the attempt took.
  Debug-level logging has no effect on the request and is left out.
\<close>

subsection \<open>DNS messages (\<^verbatim>\<open>github.com/miekg/dns\<close>)\<close>

type_synonym uint16 = "16 word"
type_synonym uint32 = "32 word"
type_synonym int32 = "32 word"

record Question =
  Q_Name :: string
  Qtype :: uint16
  Qclass :: uint16

record RR_Header =
  Name :: string
  Rrtype :: uint16
  Class :: uint16
  Ttl :: uint32
  Rdlength :: uint16

text \<open>A resource record: its header and the type-specific data, kept as bytes.\<close>

record RR =
  Header :: RR_Header
  rdata :: string

record Msg =
  Id :: uint16
  Response :: bool
  Opcode :: int
  Authoritative :: bool
  Truncated :: bool
  RecursionDesired :: bool
  RecursionAvailable :: bool
  Zero :: bool
  AuthenticatedData :: bool
  CheckingDisabled :: bool
  Rcode :: int
  Compress :: bool
  Question :: "Question list"
  Answer :: "RR list"
  Ns :: "RR list"
  Extra :: "RR list"

definition TypeOPT :: uint16 where
  "TypeOPT = 41"

definition OpcodeQuery :: int where
  "OpcodeQuery = 0"

definition RcodeSuccess :: int where
  "RcodeSuccess = 0"

definition RcodeFormatError :: int where
  "RcodeFormatError = 1"

definition RcodeServerFailure :: int where
  "RcodeServerFailure = 2"

text \<open>\<^verbatim>\<open>new(dns.Msg)\<close>: every field has Go's zero value.\<close>

definition new_Msg :: Msg where
  "new_Msg = \<lparr>Id = 0, Response = False, Opcode = 0, Authoritative = False,
     Truncated = False, RecursionDesired = False, RecursionAvailable = False,
     Zero = False, AuthenticatedData = False, CheckingDisabled = False, Rcode = 0,
     Compress = False, Question = [], Answer = [], Ns = [], Extra = []\<rparr>"

text \<open>
  \<^verbatim>\<open>(*Msg).SetReply\<close> and \<^verbatim>\<open>(*Msg).SetRcode\<close> of the miekg/dns library
  (a dependency, not part of the repository), as the library defines them: the reply
  takes the request's id and opcode, is marked as a response, copies the RD and CD bits
  of a standard query, and carries the request's first question.
\<close>

definition SetReply :: "Msg \<Rightarrow> Msg \<Rightarrow> Msg" where
  "SetReply m request =
     (let m1 = m\<lparr>Id := Id request, Response := True, Opcode := Opcode request\<rparr>;
          m2 = (if Opcode m1 = OpcodeQuery
                then m1\<lparr>RecursionDesired := RecursionDesired request,
                        CheckingDisabled := CheckingDisabled request\<rparr>
                else m1);
          m3 = m2\<lparr>Rcode := RcodeSuccess\<rparr>
      in if length (Question request) > 0
         then m3\<lparr>Question := [hd (Question request)]\<rparr>
         else m3)"

definition SetRcode :: "Msg \<Rightarrow> Msg \<Rightarrow> int \<Rightarrow> Msg" where
  "SetRcode m request rcode = (SetReply m request)\<lparr>Rcode := rcode\<rparr>"

subsection \<open>Errors, hosts, pools and the world\<close>

text \<open>
  Go compares errors by identity: \<open>errNoHealthy\<close> and \<open>errCachedConnClosed\<close> are the
  two values of \<^verbatim>\<open>dnsredir.go\<close>, \<open>errNoNextPlugin\<close> is the error of CoreDNS'
  \<^verbatim>\<open>plugin.NextOrFailure\<close> (with the plugin's name), and \<open>errTransport\<close> is any
  other error a transport returns.
\<close>

datatype error =
    errNoHealthy
  | errCachedConnClosed
  | errNoNextPlugin string
  | errTransport string

datatype panic =
    PanicUpstreamsNil
  | PanicNotReloadable
  | PanicNilDereference
  | PanicUpstreamErrNil

text \<open>What \<open>ServeDNS\<close> hands back to the plugin chain: \<open>(int, error)\<close>, or a panic.\<close>

datatype outcome =
    Returned int "error option"
  | Panicked panic

type_synonym host_ptr = nat

record Transport =
  forceTcp :: bool
  preferUdp :: bool

text \<open>
  \<open>UpstreamHost\<close> is declared outside \<^verbatim>\<open>dnsredir.go\<close>; these are the fields the
  router reads and writes. \<open>fails\<close> is the \<open>int32\<close> that \<open>atomic.AddInt32\<close> updates.
\<close>

record UpstreamHost =
  addr :: string
  fails :: int32
  transport :: Transport

text \<open>The body of a goroutine started by \<open>healthCheck\<close>: its captured variables.\<close>

record task =
  task_uh :: host_ptr
  task_fails :: int32
  task_wake :: nat

datatype event =
    EvSelect
  | EvExchange host_ptr "error option"
  | EvWriteMsg Msg
  | EvNext
  | EvCheck host_ptr

datatype warning =
    WarnRetryTcpTODO
  | WarnExchangeFailed error

record world =
  now :: nat
  heap :: "host_ptr \<Rightarrow> UpstreamHost"
  initialFinished :: int32
  spawned :: "task list"
  warnings :: "warning list"
  trace :: "event list"

text \<open>
  \<open>reloadableUpstream\<close> is declared outside \<^verbatim>\<open>dnsredir.go\<close>; these are the methods
  and fields the router uses. \<open>Select\<close> may depend on everything in the world (the
  clock, the failure counters, the history). \<open>maxFails\<close> and \<open>checkInterval\<close> are only
  compared with zero.
\<close>

record reloadableUpstream =
  Match :: "string \<Rightarrow> bool"
  Select :: "world \<Rightarrow> host_ptr option"
  maxFails :: int
  checkInterval :: int
  initialCount :: int32

text \<open>
  An \<open>Upstream\<close> is an interface value: a \<open>*reloadableUpstream\<close>, or some other
  implementation, of which the router can only call \<open>Match\<close> before it panics.
\<close>

datatype Upstream =
    Reloadable reloadableUpstream
  | Foreign "string \<Rightarrow> bool"

fun Upstream_Match :: "Upstream \<Rightarrow> string \<Rightarrow> bool" where
  "Upstream_Match (Reloadable u) name = Match u name"
| "Upstream_Match (Foreign m) name = m name"

text \<open>The result of one \<open>Exchange\<close> call and the time it took.\<close>

record exchange_result =
  res_reply :: "Msg option"
  res_err :: "error option"
  res_rtt :: nat

text \<open>
  The plugin: \<open>Next\<close> is the next handler of the chain (\<open>nil\<close> when there is none), which
  answers with a status and an error; \<open>Upstreams\<close> is the pointer to the pool list.
\<close>

record Dnsredir =
  Next :: "(Msg \<Rightarrow> world \<Rightarrow> int \<times> error option) option"
  Upstreams :: "Upstream list option"

text \<open>
  The collaborators of a request: the plugin's name (the constant \<open>pluginName\<close>),
  \<^verbatim>\<open>request.Request.Name\<close> and \<^verbatim>\<open>request.Request.Match\<close> of CoreDNS (the
  second takes the request and the reply), and \<open>UpstreamHost.Exchange\<close>.
\<close>

record env =
  pluginName :: string
  state_Name :: "Msg \<Rightarrow> string"
  state_Match :: "Msg \<Rightarrow> Msg \<Rightarrow> bool"
  Exchange :: "host_ptr \<Rightarrow> Msg \<Rightarrow> world \<Rightarrow> exchange_result"

definition defaultTimeout :: nat where
  "defaultTimeout = 15000"

definition defaultFailTimeout :: nat where
  "defaultFailTimeout = 2000"

definition failureCheck :: int where
  "failureCheck = 3"

text \<open>\<^verbatim>\<open>uint32(dnsutil.MinimalDefaultTTL / time.Second)\<close>: CoreDNS' constant is 5 s.\<close>

definition MinimalDefaultTTL_seconds :: uint32 where
  "MinimalDefaultTTL_seconds = 5"

subsection \<open>rewriteToMinimalTTLs\<close>

text \<open>
  Modelled from the spec: \<open>MinUint32\<close>, a helper of the repository that is not in
  \<^verbatim>\<open>dnsredir.go\<close>; the spec gives the clamping as \<open>ttl = min(ttl, ceiling)\<close>.
\<close>

definition MinUint32 :: "uint32 \<Rightarrow> uint32 \<Rightarrow> uint32" where
  "MinUint32 a b = (if a < b then a else b)"

definition set_Ttl :: "RR \<Rightarrow> uint32 \<Rightarrow> RR" where
  "set_Ttl r t = r\<lparr>Header := (Header r)\<lparr>Ttl := t\<rparr>\<rparr>"

text \<open>
  The three loops of \<open>rewriteToMinimalTTLs\<close>. The records of a reply are distinct
  objects (the unpacker allocates each one), so updating them in place is a map.
\<close>

fun rewrite_section :: "RR list \<Rightarrow> uint32 \<Rightarrow> RR list" where
  "rewrite_section [] minimalTTL = []"
| "rewrite_section (r # rs) minimalTTL =
     set_Ttl r (MinUint32 (Ttl (Header r)) minimalTTL) # rewrite_section rs minimalTTL"

fun rewrite_extra :: "RR list \<Rightarrow> uint32 \<Rightarrow> RR list" where
  "rewrite_extra [] minimalTTL = []"
| "rewrite_extra (r # rs) minimalTTL =
     (if Rrtype (Header r) \<noteq> TypeOPT
      then set_Ttl r (MinUint32 (Ttl (Header r)) minimalTTL)
      else r) # rewrite_extra rs minimalTTL"

definition rewriteToMinimalTTLs :: "Msg \<Rightarrow> uint32 \<Rightarrow> Msg" where
  "rewriteToMinimalTTLs rep minimalTTL =
     rep\<lparr>Answer := rewrite_section (Answer rep) minimalTTL,
         Ns := rewrite_section (Ns rep) minimalTTL,
         Extra := rewrite_extra (Extra rep) minimalTTL\<rparr>"

subsection \<open>urlInitialInProgress\<close>

text \<open>
  The scan of the pool list: \<open>Inl\<close> is the panic of the unchecked type assertion
  \<^verbatim>\<open>u.(*reloadableUpstream)\<close>, \<open>Inr True\<close> the early \<open>return true\<close>, \<open>Inr False\<close> the
  end of the loop.
\<close>

fun initial_scan :: "Upstream list \<Rightarrow> panic + bool" where
  "initial_scan [] = Inr False"
| "initial_scan (Foreign m # us) = Inl PanicNotReloadable"
| "initial_scan (Reloadable up # us) =
     (if initialCount up \<noteq> 0 then Inr True else initial_scan us)"

definition urlInitialInProgress :: "Dnsredir \<Rightarrow> world \<Rightarrow> (panic + bool) \<times> world" where
  "urlInitialInProgress r w =
     (if initialFinished w \<noteq> 0 then (Inr False, w)
      else (case Upstreams r of
              None \<Rightarrow> (Inl PanicNilDereference, w)
            | Some ups \<Rightarrow>
                (case initial_scan ups of
                   Inl p \<Rightarrow> (Inl p, w)
                 | Inr True \<Rightarrow> (Inr True, w)
                 | Inr False \<Rightarrow> (Inr False, w\<lparr>initialFinished := 1\<rparr>))))"

subsection \<open>healthCheck\<close>

text \<open>
  \<open>healthCheck\<close> adds one to the host's counter and starts a goroutine, which is
  recorded with what it captured: the host, the counter's value after the addition,
  and the time at which its \<open>time.Sleep(failTimeout)\<close> ends.
\<close>

definition add_fails :: "host_ptr \<Rightarrow> int32 \<Rightarrow> world \<Rightarrow> world" where
  "add_fails uh d w = w\<lparr>heap := (heap w)(uh := (heap w uh)\<lparr>fails := fails (heap w uh) + d\<rparr>)\<rparr>"

definition healthCheck :: "reloadableUpstream \<Rightarrow> host_ptr \<Rightarrow> world \<Rightarrow> world" where
  "healthCheck r uh w =
     (if checkInterval r = 0 \<or> maxFails r = 0 then w
      else (let failTimeout = defaultFailTimeout;
                w1 = add_fails uh 1 w;
                fails1 = fails (heap w1 uh)
            in w1\<lparr>spawned := spawned w1 @
                    [\<lparr>task_uh = uh, task_fails = fails1, task_wake = now w + failTimeout\<rparr>]\<rparr>))"

text \<open>
  What the goroutine does once its sleep is over: it takes one off the counter and,
  when the captured value is a multiple of \<open>failureCheck\<close> (Go's \<open>%\<close> on \<open>int32\<close>
  truncates, which is \<open>smod\<close>), calls \<open>Check\<close> on the host.
\<close>

definition run_task :: "task \<Rightarrow> world \<Rightarrow> world" where
  "run_task t w =
     (let w1 = add_fails (task_uh t) (- 1) w
      in if sint (task_fails t) smod failureCheck = 0
         then w1\<lparr>trace := trace w1 @ [EvCheck (task_uh t)]\<rparr>
         else w1)"

subsection \<open>match\<close>

text \<open>
  Modelled from the spec: \<open>removeTrailingDot\<close>, a helper of the repository that is not
  in \<^verbatim>\<open>dnsredir.go\<close>; the spec has the name's trailing dot stripped.
\<close>

definition removeTrailingDot :: "string \<Rightarrow> string" where
  "removeTrailingDot s = (if s \<noteq> [] \<and> last s = CHR ''.'' then butlast s else s)"

fun match_loop :: "Upstream list \<Rightarrow> string \<Rightarrow> Upstream option" where
  "match_loop [] name = None"
| "match_loop (up # ups) name =
     (if Upstream_Match up name then Some up else match_loop ups name)"

text \<open>\<open>match\<close> without the latency it measures, which is only logged.\<close>

definition match :: "Dnsredir \<Rightarrow> string \<Rightarrow> panic + Upstream option" where
  "match r name =
     (case Upstreams r of
        None \<Rightarrow> Inl PanicUpstreamsNil
      | Some ups \<Rightarrow>
          (let name1 = (if length name > 1 then removeTrailingDot name else name)
           in Inr (match_loop ups name1)))"

subsection \<open>ServeDNS\<close>

text \<open>
  \<^verbatim>\<open>plugin.NextOrFailure\<close> of CoreDNS: the next handler's answer, or a server
  failure when there is no next handler.
\<close>

definition NextOrFailure ::
  "string \<Rightarrow> (Msg \<Rightarrow> world \<Rightarrow> int \<times> error option) option \<Rightarrow> Msg \<Rightarrow> world \<Rightarrow> outcome \<times> world" where
  "NextOrFailure name next req w =
     (case next of
        Some h \<Rightarrow> (case h req w of (rc, e) \<Rightarrow> (Returned rc e, w\<lparr>trace := trace w @ [EvNext]\<rparr>))
      | None \<Rightarrow> (Returned RcodeServerFailure (Some (errNoNextPlugin name)), w))"

text \<open>
  The inner \<open>for\<close> loop (lines 91 to 105): one \<open>Exchange\<close> per turn, again on the same
  host while the error is \<open>errCachedConnClosed\<close>. It hands back the last result.
\<close>

partial_function (option) exchange_loop ::
  "env \<Rightarrow> host_ptr \<Rightarrow> Msg \<Rightarrow> world \<Rightarrow> (exchange_result \<times> world) option" where
  "exchange_loop e host req w =
     (let res = Exchange e host req w;
          w1 = w\<lparr>now := now w + res_rtt res, trace := trace w @ [EvExchange host (res_err res)]\<rparr>
      in if res_err res = Some errCachedConnClosed then exchange_loop e host req w1
         else if res_reply res \<noteq> None \<and> Truncated (the (res_reply res))
                 \<and> \<not> forceTcp (transport (heap w1 host)) \<and> preferUdp (transport (heap w1 host))
         then Some (res, w1\<lparr>warnings := warnings w1 @ [WarnRetryTcpTODO]\<rparr>)
         else Some (res, w1))"

definition WriteMsg :: "Msg \<Rightarrow> world \<Rightarrow> world" where
  "WriteMsg m w = w\<lparr>trace := trace w @ [EvWriteMsg m]\<rparr>"

text \<open>
  What follows a successful exchange (lines 115 to 128). A \<open>nil\<close> reply with a \<open>nil\<close>
  error makes \<open>state.Match\<close> dereference \<open>nil\<close>.
\<close>

definition deliver :: "env \<Rightarrow> Dnsredir \<Rightarrow> Msg \<Rightarrow> Msg option \<Rightarrow> world \<Rightarrow> outcome \<times> world" where
  "deliver e r req reply0 w =
     (case reply0 of
        None \<Rightarrow> (Panicked PanicNilDereference, w)
      | Some rep \<Rightarrow>
          if \<not> state_Match e req rep
          then (let formerr = SetRcode new_Msg req RcodeFormatError
                in (Returned 0 None, WriteMsg formerr w))
          else (case urlInitialInProgress r w of
                  (Inl p, w1) \<Rightarrow> (Panicked p, w1)
                | (Inr inprogress, w1) \<Rightarrow>
                    (let rep1 = (if inprogress
                                 then rewriteToMinimalTTLs rep MinimalDefaultTTL_seconds
                                 else rep)
                     in (Returned 0 None, WriteMsg rep1 w1))))"

text \<open>
  The outer \<open>for\<close> loop (lines 83 to 129) and the exit after it (lines 131 to 134);
  \<open>upstreamErr\<close> is the variable of that name.
\<close>

partial_function (option) dispatch ::
  "env \<Rightarrow> Dnsredir \<Rightarrow> reloadableUpstream \<Rightarrow> Msg \<Rightarrow> nat \<Rightarrow> error option \<Rightarrow> world
     \<Rightarrow> (outcome \<times> world) option" where
  "dispatch e r upstream req deadline upstreamErr w =
     (if now w < deadline
      then (let w0 = w\<lparr>trace := trace w @ [EvSelect]\<rparr>
            in case Select upstream w of
                 None \<Rightarrow> Some (Returned RcodeServerFailure (Some errNoHealthy), w0)
               | Some host \<Rightarrow>
                   (case exchange_loop e host req w0 of
                      None \<Rightarrow> None
                    | Some (res, w1) \<Rightarrow>
                        (case res_err res of
                           Some er \<Rightarrow>
                             if maxFails upstream \<noteq> 0
                             then dispatch e r upstream req deadline (Some er)
                                    (healthCheck upstream host
                                       (w1\<lparr>warnings := warnings w1 @ [WarnExchangeFailed er]\<rparr>))
                             else dispatch e r upstream req deadline (Some er) w1
                         | None \<Rightarrow> Some (deliver e r req (res_reply res) w1))))
      else (case upstreamErr of
              None \<Rightarrow> Some (Panicked PanicUpstreamErrNil, w)
            | Some er \<Rightarrow> Some (Returned RcodeServerFailure (Some er), w)))"

definition ServeDNS :: "env \<Rightarrow> Dnsredir \<Rightarrow> Msg \<Rightarrow> world \<Rightarrow> (outcome \<times> world) option" where
  "ServeDNS e r req w =
     (let name = state_Name e req
      in case match r name of
           Inl p \<Rightarrow> Some (Panicked p, w)
         | Inr None \<Rightarrow> Some (NextOrFailure (pluginName e) (Next r) req w)
         | Inr (Some (Foreign m)) \<Rightarrow> Some (Panicked PanicNotReloadable, w)
         | Inr (Some (Reloadable upstream)) \<Rightarrow>
             dispatch e r upstream req (now w + defaultTimeout) None w)"

subsection \<open>Reading the trace\<close>

fun is_write :: "event \<Rightarrow> bool" where
  "is_write (EvWriteMsg m) = True"
| "is_write ev = False"

text \<open>The replies the router has written so far.\<close>

definition writes :: "world \<Rightarrow> event list" where
  "writes w = filter is_write (trace w)"

fun is_exchange_on :: "host_ptr \<Rightarrow> event \<Rightarrow> bool" where
  "is_exchange_on h (EvExchange h1 er) = (h1 = h)"
| "is_exchange_on h ev = False"

text \<open>The number of \<open>Exchange\<close> calls made on a host so far.\<close>

definition attempts :: "host_ptr \<Rightarrow> world \<Rightarrow> nat" where
  "attempts h w = length (filter (is_exchange_on h) (trace w))"

subsection \<open>Concrete requests, pools and transports\<close>

definition ex_question :: Question where
  "ex_question = \<lparr>Q_Name = ''example.org.'', Qtype = 1, Qclass = 1\<rparr>"

definition ex_req :: Msg where
  "ex_req = new_Msg\<lparr>Id := 4660, RecursionDesired := True, Question := [ex_question]\<rparr>"

definition ex_rr :: "uint16 \<Rightarrow> uint32 \<Rightarrow> RR" where
  "ex_rr t ttl = \<lparr>Header = \<lparr>Name = ''example.org.'', Rrtype = t, Class = 1, Ttl = ttl,
                            Rdlength = 4\<rparr>, rdata = []\<rparr>"

text \<open>A reply with the TTLs 10, 500 and 3600 and an OPT record whose TTL field holds flags.\<close>

definition ex_reply :: Msg where
  "ex_reply = new_Msg\<lparr>Id := 4660, Response := True, Question := [ex_question],
                      Answer := [ex_rr 1 10, ex_rr 1 500, ex_rr 1 3600],
                      Extra := [ex_rr 41 32768]\<rparr>"

definition ex_truncated :: Msg where
  "ex_truncated = ex_reply\<lparr>Truncated := True, Answer := []\<rparr>"

text \<open>A reply to another question.\<close>

definition ex_wrong_reply :: Msg where
  "ex_wrong_reply = ex_reply\<lparr>Question := [ex_question\<lparr>Q_Name := ''example.com.''\<rparr>]\<rparr>"

definition ex_host :: "bool \<Rightarrow> UpstreamHost" where
  "ex_host udp = \<lparr>addr = ''192.0.2.1:53'', fails = 0,
                  transport = \<lparr>forceTcp = False, preferUdp = udp\<rparr>\<rparr>"

text \<open>The world at the start: every host pointer names a host with \<open>preferUdp = udp\<close>.\<close>

definition ex_world :: "bool \<Rightarrow> world" where
  "ex_world udp = \<lparr>now = 0, heap = (\<lambda>p. ex_host udp), initialFinished = 0, spawned = [],
                   warnings = [], trace = []\<rparr>"

definition ex_pool :: reloadableUpstream where
  "ex_pool = \<lparr>Match = (\<lambda>n. n = ''example.org''), Select = (\<lambda>w. Some 0), maxFails = 3,
              checkInterval = 2000, initialCount = 0\<rparr>"

definition ex_next :: "Msg \<Rightarrow> world \<Rightarrow> int \<times> error option" where
  "ex_next m w = (0, None)"

definition ex_router :: "reloadableUpstream \<Rightarrow> Dnsredir" where
  "ex_router up = \<lparr>Next = Some ex_next, Upstreams = Some [Reloadable up]\<rparr>"

definition ex_Name :: "Msg \<Rightarrow> string" where
  "ex_Name m = (case Question m of [] \<Rightarrow> ''.'' | q # qs \<Rightarrow> Q_Name q)"

definition ex_Match :: "Msg \<Rightarrow> Msg \<Rightarrow> bool" where
  "ex_Match rq rp = (length (Question rp) = 1 \<and> Response rp
                     \<and> Q_Name (hd (Question rp)) = ex_Name rq)"

definition ex_env :: "(host_ptr \<Rightarrow> Msg \<Rightarrow> world \<Rightarrow> exchange_result) \<Rightarrow> env" where
  "ex_env x = \<lparr>pluginName = ''dnsredir'', state_Name = ex_Name, state_Match = ex_Match,
               Exchange = x\<rparr>"

text \<open>Transports: one that answers, one that times out, one whose cached connections are
  always closed, and one whose first \<open>K\<close> attempts on a host hit a closed connection.\<close>

definition exch_ok :: "Msg \<Rightarrow> host_ptr \<Rightarrow> Msg \<Rightarrow> world \<Rightarrow> exchange_result" where
  "exch_ok rp h m w = \<lparr>res_reply = Some rp, res_err = None, res_rtt = 20\<rparr>"

definition exch_fail :: "host_ptr \<Rightarrow> Msg \<Rightarrow> world \<Rightarrow> exchange_result" where
  "exch_fail h m w = \<lparr>res_reply = None, res_err = Some (errTransport ''i/o timeout''),
                      res_rtt = 5000\<rparr>"

definition exch_closed :: "host_ptr \<Rightarrow> Msg \<Rightarrow> world \<Rightarrow> exchange_result" where
  "exch_closed h m w = \<lparr>res_reply = None, res_err = Some errCachedConnClosed, res_rtt = 1\<rparr>"

definition exch_closed_then_ok :: "nat \<Rightarrow> host_ptr \<Rightarrow> Msg \<Rightarrow> world \<Rightarrow> exchange_result" where
  "exch_closed_then_ok K h m w =
     (if attempts h w < K then exch_closed h m w else exch_ok ex_reply h m w)"

text \<open>Variants of the pool: one with no host to select, one still loading its lists,
  and a second pool for the same zone.\<close>

definition ex_pool_empty :: reloadableUpstream where
  "ex_pool_empty = ex_pool\<lparr>Select := (\<lambda>w. None)\<rparr>"

definition ex_pool_busy :: reloadableUpstream where
  "ex_pool_busy = ex_pool\<lparr>initialCount := 1\<rparr>"

definition ex_pool_b :: reloadableUpstream where
  "ex_pool_b = ex_pool\<lparr>Select := (\<lambda>w. Some 1), maxFails := 0\<rparr>"

text \<open>The pool with health checking switched off by its check interval.\<close>

definition ex_pool_nocheck :: reloadableUpstream where
  "ex_pool_nocheck = ex_pool\<lparr>checkInterval := 0\<rparr>"

definition ex_router2 :: Dnsredir where
  "ex_router2 = \<lparr>Next = Some ex_next,
                 Upstreams = Some [Reloadable ex_pool, Reloadable ex_pool_b]\<rparr>"

definition ex_req_other :: Msg where
  "ex_req_other = ex_req\<lparr>Question := [ex_question\<lparr>Q_Name := ''example.net.''\<rparr>]\<rparr>"

definition ex_world_finished :: world where
  "ex_world_finished = (ex_world False)\<lparr>initialFinished := 1\<rparr>"

section \<open>Properties\<close>

subsection \<open>The inner loop\<close>

lemma exchange_loop_not_closed:
  assumes "res_err (Exchange e host req w) \<noteq> Some errCachedConnClosed"
  shows "exchange_loop e host req w =
     Some (Exchange e host req w,
           w\<lparr>now := now w + res_rtt (Exchange e host req w),
              trace := trace w @ [EvExchange host (res_err (Exchange e host req w))],
              warnings := warnings w @
                (if res_reply (Exchange e host req w) \<noteq> None
                    \<and> Truncated (the (res_reply (Exchange e host req w)))
                    \<and> \<not> forceTcp (transport (heap w host)) \<and> preferUdp (transport (heap w host))
                 then [WarnRetryTcpTODO] else [])\<rparr>)"
  using assms by (subst exchange_loop.simps) (simp add: Let_def)

lemma exchange_loop_closed:
  assumes "res_err (Exchange e host req w) = Some errCachedConnClosed"
  shows "exchange_loop e host req w =
     exchange_loop e host req
       (w\<lparr>now := now w + res_rtt (Exchange e host req w),
          trace := trace w @ [EvExchange host (Some errCachedConnClosed)]\<rparr>)"
  using assms by (subst exchange_loop.simps) (simp add: Let_def)

lemma exchange_loop_frame:
  assumes "exchange_loop e host req w = Some (res, w1)"
  shows "heap w1 = heap w \<and> spawned w1 = spawned w \<and> initialFinished w1 = initialFinished w
     \<and> now w \<le> now w1
     \<and> res_err res \<noteq> Some errCachedConnClosed
     \<and> (\<exists>n. trace w1 = trace w @ replicate n (EvExchange host (Some errCachedConnClosed))
                 @ [EvExchange host (res_err res)])"
proof -
  have "heap (snd y) = heap w \<and> spawned (snd y) = spawned w
        \<and> initialFinished (snd y) = initialFinished w
        \<and> now w \<le> now (snd y)
        \<and> res_err (fst y) \<noteq> Some errCachedConnClosed
        \<and> (\<exists>n. trace (snd y) = trace w @ replicate n (EvExchange host (Some errCachedConnClosed))
                 @ [EvExchange host (res_err (fst y))])"
    if "exchange_loop e host req w = Some y" for y
    using that
  proof (induction rule: exchange_loop.raw_induct[rotated, consumes 1])
    case (1 loop e host req w y)
    show ?case
    proof (cases "res_err (Exchange e host req w) = Some errCachedConnClosed")
      case True
      let ?w1 = "w\<lparr>now := now w + res_rtt (Exchange e host req w),
                   trace := trace w @ [EvExchange host (res_err (Exchange e host req w))]\<rparr>"
      from 1(2) True have "loop e host req ?w1 = Some y"
        by (simp add: Let_def)
      note ih = 1(1)[OF this]
      from ih have h: "heap (snd y) = heap w" "spawned (snd y) = spawned w"
           "initialFinished (snd y) = initialFinished w" "now w \<le> now (snd y)"
           "res_err (fst y) \<noteq> Some errCachedConnClosed"
        by simp_all
      from ih obtain n where
        t: "trace (snd y) = trace ?w1 @ replicate n (EvExchange host (Some errCachedConnClosed))
                 @ [EvExchange host (res_err (fst y))]"
        by blast
      from t True have "trace (snd y) = trace w
            @ replicate (Suc n) (EvExchange host (Some errCachedConnClosed))
            @ [EvExchange host (res_err (fst y))]"
        by simp
      with h show ?thesis by blast
    next
      case False
      with 1(2) have "trace (snd y) = trace w @ replicate 0 (EvExchange host (Some errCachedConnClosed))
                 @ [EvExchange host (res_err (fst y))]"
        by (auto simp: Let_def split: if_splits)
      moreover from False 1(2) have "heap (snd y) = heap w \<and> spawned (snd y) = spawned w
        \<and> initialFinished (snd y) = initialFinished w
        \<and> now w \<le> now (snd y)
        \<and> res_err (fst y) \<noteq> Some errCachedConnClosed"
        by (auto simp: Let_def split: if_splits)
      ultimately show ?thesis by blast
    qed
  qed
  from this[OF assms] show ?thesis by simp
qed

subsection \<open>One turn of the outer loop\<close>

lemma dispatch_expired:
  assumes "\<not> now w < deadline"
  shows "dispatch e r upstream req deadline (Some er) w
          = Some (Returned RcodeServerFailure (Some er), w)"
  using assms by (subst dispatch.simps) simp

lemma dispatch_no_host:
  assumes "now w < deadline" and "Select upstream w = None"
  shows "dispatch e r upstream req deadline upstreamErr w
          = Some (Returned RcodeServerFailure (Some errNoHealthy),
                  w\<lparr>trace := trace w @ [EvSelect]\<rparr>)"
  using assms by (subst dispatch.simps) (simp add: Let_def)

lemma dispatch_success:
  assumes "now w < deadline" and "Select upstream w = Some host"
    and "exchange_loop e host req (w\<lparr>trace := trace w @ [EvSelect]\<rparr>) = Some (res, w1)"
    and "res_err res = None"
  shows "dispatch e r upstream req deadline upstreamErr w
          = Some (deliver e r req (res_reply res) w1)"
  using assms by (subst dispatch.simps) (simp add: Let_def)

lemma dispatch_failure:
  assumes "now w < deadline" and "Select upstream w = Some host"
    and "exchange_loop e host req (w\<lparr>trace := trace w @ [EvSelect]\<rparr>) = Some (res, w1)"
    and "res_err res = Some er"
  shows "dispatch e r upstream req deadline upstreamErr w
          = dispatch e r upstream req deadline (Some er)
              (if maxFails upstream \<noteq> 0
               then healthCheck upstream host
                      (w1\<lparr>warnings := warnings w1 @ [WarnExchangeFailed er]\<rparr>)
               else w1)"
  using assms by (subst dispatch.simps) (simp add: Let_def)

lemma ServeDNS_matched:
  assumes "match r (state_Name e req) = Inr (Some (Reloadable upstream))"
  shows "ServeDNS e r req w = dispatch e r upstream req (now w + defaultTimeout) None w"
  using assms by (simp add: ServeDNS_def)

lemma urlInitialInProgress_frame:
  assumes "urlInitialInProgress r w = (b, w1)"
  shows "heap w1 = heap w \<and> spawned w1 = spawned w \<and> trace w1 = trace w \<and> now w1 = now w
         \<and> warnings w1 = warnings w
         \<and> (initialFinished w \<noteq> 0 \<longrightarrow> initialFinished w1 \<noteq> 0)"
  using assms
  by (auto simp: urlInitialInProgress_def split: if_splits option.splits sum.splits bool.splits)

lemma deliver_frame:
  assumes "deliver e r req rep w = (out, w1)"
  shows "heap w1 = heap w \<and> spawned w1 = spawned w \<and> now w1 = now w
         \<and> warnings w1 = warnings w
         \<and> (initialFinished w \<noteq> 0 \<longrightarrow> initialFinished w1 \<noteq> 0)
         \<and> (trace w1 = trace w \<or> (\<exists>m. trace w1 = trace w @ [EvWriteMsg m]))
         \<and> (writes w1 \<noteq> writes w \<longrightarrow> out = Returned 0 None)"
proof (cases rep)
  case None
  with assms show ?thesis by (simp add: deliver_def)
next
  case (Some m)
  show ?thesis
  proof (cases "state_Match e req m")
    case False
    with Some assms show ?thesis
      by (auto simp: deliver_def WriteMsg_def Let_def)
  next
    case True
    obtain b w2 where u: "urlInitialInProgress r w = (b, w2)"
      by (cases "urlInitialInProgress r w")
    note f = urlInitialInProgress_frame[OF u]
    show ?thesis
    proof (cases b)
      case (Inl p)
      with Some True u assms f show ?thesis
        by (auto simp: deliver_def writes_def)
    next
      case (Inr inprogress)
      with Some True u assms f show ?thesis
        by (auto simp: deliver_def WriteMsg_def Let_def)
    qed
  qed
qed

lemma healthCheck_frame:
  "now (healthCheck up h w) = now w \<and> trace (healthCheck up h w) = trace w
   \<and> initialFinished (healthCheck up h w) = initialFinished w
   \<and> warnings (healthCheck up h w) = warnings w"
  by (simp add: healthCheck_def add_fails_def Let_def)


lemma dispatch_frame:
  assumes "dispatch e r upstream req deadline upstreamErr w = Some y"
  shows "(initialFinished w \<noteq> 0 \<longrightarrow> initialFinished (snd y) \<noteq> 0)
       \<and> (writes (snd y) \<noteq> writes w \<longrightarrow> fst y = Returned 0 None)"
  using assms
proof (induction rule: dispatch.raw_induct[rotated, consumes 1])
  case (1 loop e r upstream req deadline upstreamErr w y)
  show ?case
  proof (cases "now w < deadline")
    case False
    with 1(2) show ?thesis by (auto split: option.splits)
  next
    case live: True
    let ?w0 = "w\<lparr>trace := trace w @ [EvSelect]\<rparr>"
    have w0: "writes ?w0 = writes w" "initialFinished ?w0 = initialFinished w"
      by (simp_all add: writes_def)
    show ?thesis
    proof (cases "Select upstream w")
      case None
      with live 1(2) show ?thesis by (auto simp: Let_def writes_def)
    next
      case (Some host)
      show ?thesis
      proof (cases "exchange_loop e host req ?w0")
        case None
        with live Some 1(2) show ?thesis by (simp add: Let_def)
      next
        case ex: (Some p)
        obtain res w1 where p: "p = (res, w1)" by (cases p)
        note fr = exchange_loop_frame[OF ex[unfolded p]]
        from fr have w1: "writes w1 = writes w" "initialFinished w1 = initialFinished w"
          by (auto simp: writes_def)
        show ?thesis
        proof (cases "res_err res")
          case None
          with live Some ex p 1(2) have y: "deliver e r req (res_reply res) w1 = (fst y, snd y)"
            by (auto simp: Let_def)
          from deliver_frame[OF y] w1 show ?thesis by simp
        next
          case er: (Some er)
          let ?w2 = "if maxFails upstream \<noteq> 0
               then healthCheck upstream host
                      (w1\<lparr>warnings := warnings w1 @ [WarnExchangeFailed er]\<rparr>)
               else w1"
          from live Some ex p er 1(2)
          have "loop e r upstream req deadline (Some er) ?w2 = Some y"
            by (auto simp: Let_def)
          note ih = 1(1)[OF this]
          have "writes ?w2 = writes w" "initialFinished ?w2 = initialFinished w"
            using w1 by (simp_all add: writes_def healthCheck_frame)
          with ih show ?thesis by simp
        qed
      qed
    qed
  qed
qed

subsection \<open>Concrete runs\<close>

lemma ex_match:
  "Match up ''example.org'' \<Longrightarrow> match (ex_router up) (state_Name (ex_env x) ex_req) = Inr (Some (Reloadable up))"
  by (simp add: match_def ex_router_def ex_env_def ex_Name_def ex_req_def ex_question_def
        removeTrailingDot_def)

text \<open>A transport that answers at once: one exchange, no warning.\<close>

lemma ex_exchange_ok:
  assumes "\<not> Truncated rp"
  shows "exchange_loop (ex_env (exch_ok rp)) 0 ex_req
           ((ex_world u)\<lparr>trace := trace (ex_world u) @ [EvSelect]\<rparr>)
         = Some (exch_ok rp 0 ex_req ((ex_world u)\<lparr>trace := trace (ex_world u) @ [EvSelect]\<rparr>),
                 (ex_world u)\<lparr>now := 20, trace := [EvSelect, EvExchange 0 None]\<rparr>)"
proof -
  let ?e = "ex_env (exch_ok rp)"
  let ?ws = "(ex_world u)\<lparr>trace := trace (ex_world u) @ [EvSelect]\<rparr>"
  have "res_err (Exchange ?e 0 ex_req ?ws) \<noteq> Some errCachedConnClosed"
    by (simp add: ex_env_def exch_ok_def)
  from exchange_loop_not_closed[OF this] assms
  show ?thesis
    by (simp add: ex_env_def exch_ok_def ex_world_def)
qed

text \<open>A run against a transport that answers at once: one selection, one exchange.\<close>

lemma ex_run_ok:
  assumes "Match up ''example.org''" and "Select up (ex_world u) = Some 0"
    and "\<not> Truncated rp"
  shows "ServeDNS (ex_env (exch_ok rp)) (ex_router up) ex_req (ex_world u)
     = Some (deliver (ex_env (exch_ok rp)) (ex_router up) ex_req (Some rp)
               ((ex_world u)\<lparr>now := 20, trace := [EvSelect, EvExchange 0 None]\<rparr>))"
proof -
  let ?e = "ex_env (exch_ok rp)"
  let ?w = "ex_world u"
  let ?ws = "?w\<lparr>trace := trace ?w @ [EvSelect]\<rparr>"
  have a1: "now ?w < now ?w + defaultTimeout"
    by (simp add: defaultTimeout_def)
  have "res_err (Exchange ?e 0 ex_req ?ws) \<noteq> Some errCachedConnClosed"
    by (simp add: ex_env_def exch_ok_def)
  from exchange_loop_not_closed[OF this] assms(3)
  have a3: "exchange_loop ?e 0 ex_req ?ws
         = Some (exch_ok rp 0 ex_req ?ws, ?w\<lparr>now := 20, trace := [EvSelect, EvExchange 0 None]\<rparr>)"
    by (simp add: ex_env_def exch_ok_def ex_world_def)
  have a4: "res_err (exch_ok rp 0 ex_req ?ws) = None"
    by (simp add: exch_ok_def)
  from dispatch_success[OF a1 assms(2) a3 a4, of "ex_router up" None]
  show ?thesis
    by (simp add: ServeDNS_matched[OF ex_match[OF assms(1)]] exch_ok_def)
qed

subsection \<open>Messages\<close>

lemma SetRcode_new_Msg:
  "Rcode (SetRcode new_Msg req rc) = rc \<and> Id (SetRcode new_Msg req rc) = Id req
   \<and> Question (SetRcode new_Msg req rc) = take 1 (Question req)
   \<and> Response (SetRcode new_Msg req rc)
   \<and> Answer (SetRcode new_Msg req rc) = [] \<and> Ns (SetRcode new_Msg req rc) = []
   \<and> Extra (SetRcode new_Msg req rc) = []"
  by (cases "Question req") (simp_all add: SetRcode_def SetReply_def new_Msg_def Let_def)

lemma MinUint32_min: "MinUint32 a b = min a b"
  by (auto simp: MinUint32_def min_def)

lemma rewrite_section_map:
  "rewrite_section rs c = map (\<lambda>rr. set_Ttl rr (min (Ttl (Header rr)) c)) rs"
  by (induction rs) (simp_all add: MinUint32_min)

lemma rewrite_extra_map:
  "rewrite_extra rs c
     = map (\<lambda>rr. if Rrtype (Header rr) = TypeOPT then rr
                  else set_Ttl rr (min (Ttl (Header rr)) c)) rs"
  by (induction rs) (simp_all add: MinUint32_min)

lemma rewrite_section_le:
  "list_all2 (\<lambda>a b. Ttl (Header b) \<le> Ttl (Header a)) rs (rewrite_section rs c)"
  by (induction rs) (simp_all add: MinUint32_min set_Ttl_def)

lemma rewrite_extra_le:
  "list_all2 (\<lambda>a b. Ttl (Header b) \<le> Ttl (Header a)) rs (rewrite_extra rs c)"
  by (induction rs) (simp_all add: MinUint32_min set_Ttl_def)

subsection \<open>No healthy upstream\<close>

text \<open>
  C6. Whenever the matched pool's \<open>Select\<close> returns no host, the request ends at once
  with the server-failure status and the error \<open>errNoHealthy\<close>: the turn makes the one
  \<open>Select\<close> call and nothing else, whatever time remains before the deadline and
  whatever error an earlier turn recorded. This holds for any turn of the loop, and so
  for \<open>ServeDNS\<close> when the first selection already fails.
\<close>

theorem no_healthy_upstream_terminal:
  assumes "Select upstream w = None"
  shows "(now w < deadline \<longrightarrow>
            dispatch e r upstream req deadline upstreamErr w
              = Some (Returned RcodeServerFailure (Some errNoHealthy),
                      w\<lparr>trace := trace w @ [EvSelect]\<rparr>))
       \<and> (match r (state_Name e req) = Inr (Some (Reloadable upstream)) \<longrightarrow>
            ServeDNS e r req w
              = Some (Returned RcodeServerFailure (Some errNoHealthy),
                      w\<lparr>trace := trace w @ [EvSelect]\<rparr>))"
proof -
  have "now w < now w + defaultTimeout" by (simp add: defaultTimeout_def)
  then show ?thesis
    using assms by (simp add: dispatch_no_host ServeDNS_matched)
qed

theorem no_healthy_upstream_terminal_witness:
  "dispatch (ex_env exch_fail) (ex_router ex_pool_empty) ex_pool_empty ex_req 15000
       (Some (errTransport ''i/o timeout'')) (ex_world False)
     = Some (Returned 2 (Some errNoHealthy), (ex_world False)\<lparr>trace := [EvSelect]\<rparr>)
   \<and> ServeDNS (ex_env exch_fail) (ex_router ex_pool_empty) ex_req (ex_world False)
     = Some (Returned 2 (Some errNoHealthy), (ex_world False)\<lparr>trace := [EvSelect]\<rparr>)"
proof -
  have s: "Select ex_pool_empty (ex_world False) = None"
    by (simp add: ex_pool_empty_def)
  have n: "now (ex_world False) < 15000"
    by (simp add: ex_world_def)
  have m: "match (ex_router ex_pool_empty) (state_Name (ex_env exch_fail) ex_req)
             = Inr (Some (Reloadable ex_pool_empty))"
    by (rule ex_match) (simp add: ex_pool_empty_def ex_pool_def)
  have t: "trace (ex_world False) = []"
    by (simp add: ex_world_def)
  from no_healthy_upstream_terminal[OF s, of 15000 "ex_env exch_fail" "ex_router ex_pool_empty"
      ex_req "Some (errTransport ''i/o timeout'')"] n m t
  show ?thesis by (simp add: RcodeServerFailure_def)
qed

subsection \<open>Truncated replies\<close>

text \<open>
  C9, as amended. An exchange whose error is not \<open>errCachedConnClosed\<close> ends the inner
  loop after that one attempt, truncated reply or not, and the loop hands back the
  transport's result unchanged. The warning about the missing TCP retry is logged exactly
  when the reply is truncated, the host's transport does not force TCP and it prefers UDP;
  in every other case nothing is logged.
\<close>

theorem truncated_reply_not_retried:
  assumes "res_err (Exchange e host req w) \<noteq> Some errCachedConnClosed"
  shows "exchange_loop e host req w =
     Some (Exchange e host req w,
           w\<lparr>now := now w + res_rtt (Exchange e host req w),
              trace := trace w @ [EvExchange host (res_err (Exchange e host req w))],
              warnings := warnings w @
                (if res_reply (Exchange e host req w) \<noteq> None
                    \<and> Truncated (the (res_reply (Exchange e host req w)))
                    \<and> \<not> forceTcp (transport (heap w host)) \<and> preferUdp (transport (heap w host))
                 then [WarnRetryTcpTODO] else [])\<rparr>)"
  using assms by (rule exchange_loop_not_closed)

theorem truncated_reply_not_retried_witness:
  "exchange_loop (ex_env (exch_ok ex_truncated)) 0 ex_req (ex_world True)
     = Some (exch_ok ex_truncated 0 ex_req (ex_world True),
             (ex_world True)\<lparr>now := 20, trace := [EvExchange 0 None],
                               warnings := [WarnRetryTcpTODO]\<rparr>)"
proof -
  have "res_err (Exchange (ex_env (exch_ok ex_truncated)) 0 ex_req (ex_world True))
          \<noteq> Some errCachedConnClosed"
    by (simp add: ex_env_def exch_ok_def)
  from truncated_reply_not_retried[OF this]
  show ?thesis
    by (simp add: ex_env_def exch_ok_def ex_world_def ex_truncated_def ex_host_def)
qed

text \<open>
  C9 as stated fails: for a host whose transport neither forces TCP nor prefers UDP, a
  truncated reply is returned without any warning being logged.
\<close>

theorem truncation_not_logged_counterexample:
  "Truncated ex_truncated
   \<and> \<not> forceTcp (transport (heap (ex_world False) 0))
   \<and> \<not> preferUdp (transport (heap (ex_world False) 0))
   \<and> exchange_loop (ex_env (exch_ok ex_truncated)) 0 ex_req (ex_world False)
     = Some (exch_ok ex_truncated 0 ex_req (ex_world False),
             (ex_world False)\<lparr>now := 20, trace := [EvExchange 0 None], warnings := []\<rparr>)"
proof -
  have "res_err (Exchange (ex_env (exch_ok ex_truncated)) 0 ex_req (ex_world False))
          \<noteq> Some errCachedConnClosed"
    by (simp add: ex_env_def exch_ok_def)
  from exchange_loop_not_closed[OF this]
  show ?thesis
    by (simp add: ex_env_def exch_ok_def ex_world_def ex_truncated_def ex_host_def)
qed

subsection \<open>A reply to another question\<close>



subsection \<open>The status handed to the plugin chain\<close>

text \<open>
  C10. Whenever \<open>ServeDNS\<close> returns after the router itself has written a reply, it
  returns the status 0 and a \<open>nil\<close> error. This includes the reply to a mismatching
  answer: the message written has the rcode FORMERR, the status returned is 0.
\<close>

theorem written_reply_returns_success:
  "(ServeDNS e r req w = Some (out, w1) \<and> writes w1 \<noteq> writes w \<longrightarrow> out = Returned 0 None)
   \<and> (\<not> state_Match e req rep \<longrightarrow>
        deliver e r req (Some rep) w2
          = (Returned 0 None, WriteMsg (SetRcode new_Msg req RcodeFormatError) w2)
        \<and> Rcode (SetRcode new_Msg req RcodeFormatError) = RcodeFormatError)"
proof -
  have "out = Returned 0 None"
    if run: "ServeDNS e r req w = Some (out, w1)" and wr: "writes w1 \<noteq> writes w"
  proof (cases "match r (state_Name e req)")
    case (Inl p)
    with run wr show ?thesis by (simp add: ServeDNS_def)
  next
    case (Inr found)
    show ?thesis
    proof (cases found)
      case None
      with Inr run wr show ?thesis
        by (auto simp: ServeDNS_def NextOrFailure_def writes_def split: option.splits prod.splits)
    next
      case (Some up)
      show ?thesis
      proof (cases up)
        case (Foreign m)
        with Some Inr run wr show ?thesis by (simp add: ServeDNS_def)
      next
        case (Reloadable upstream)
        with Some Inr run
        have "dispatch e r upstream req (now w + defaultTimeout) None w = Some (out, w1)"
          by (simp add: ServeDNS_def)
        from dispatch_frame[OF this] wr show ?thesis by simp
      qed
    qed
  qed
  then show ?thesis
    by (simp add: deliver_def SetRcode_new_Msg)
qed

theorem written_reply_returns_success_witness:
  "ServeDNS (ex_env (exch_ok ex_wrong_reply)) (ex_router ex_pool) ex_req (ex_world False)
     = Some (Returned 0 None,
             WriteMsg (SetRcode new_Msg ex_req RcodeFormatError)
               ((ex_world False)\<lparr>now := 20, trace := [EvSelect, EvExchange 0 None]\<rparr>))
   \<and> Rcode (SetRcode new_Msg ex_req RcodeFormatError) = 1"
proof -
  let ?e = "ex_env (exch_ok ex_wrong_reply)"
  let ?w1 = "(ex_world False)\<lparr>now := 20, trace := [EvSelect, EvExchange 0 None]\<rparr>"
  obtain out w' where d: "deliver ?e (ex_router ex_pool) ex_req (Some ex_wrong_reply) ?w1 = (out, w')"
    by (cases "deliver ?e (ex_router ex_pool) ex_req (Some ex_wrong_reply) ?w1")
  have mm: "\<not> state_Match ?e ex_req ex_wrong_reply"
    by (simp add: ex_env_def ex_Match_def ex_Name_def ex_wrong_reply_def ex_req_def
          ex_question_def)
  have run: "ServeDNS ?e (ex_router ex_pool) ex_req (ex_world False) = Some (out, w')"
    using ex_run_ok[of ex_pool False ex_wrong_reply] d
    by (simp add: ex_pool_def ex_wrong_reply_def ex_reply_def new_Msg_def)
  note inst = written_reply_returns_success[of ?e "ex_router ex_pool" ex_req "ex_world False"
      out w' ex_wrong_reply ?w1]
  from inst mm d have w': "w' = WriteMsg (SetRcode new_Msg ex_req RcodeFormatError) ?w1"
    by simp
  then have "writes w' \<noteq> writes (ex_world False)"
    by (simp add: writes_def WriteMsg_def ex_world_def)
  with inst run have "out = Returned 0 None" by simp
  with run w' inst mm show ?thesis
    by (simp add: RcodeFormatError_def)
qed

subsection \<open>The TTL rewrite\<close>

text \<open>
  C7. \<open>rewriteToMinimalTTLs\<close> sets the TTL of every record of the answer and authority
  sections, and of every record of the additional section that is not an OPT record, to
  the minimum of its TTL and the ceiling; an OPT record of the additional section is left
  as it is; nothing else in the reply changes and no TTL is raised. In the loop, the
  reply that is written for a matching answer is the rewritten one (with the ceiling
  \<open>MinimalDefaultTTL\<close>) when \<open>urlInitialInProgress\<close> reports true, and the reply as
  received when it reports false.
\<close>

theorem rewriteToMinimalTTLs_clamps:
  "Answer (rewriteToMinimalTTLs m c)
     = map (\<lambda>rr. set_Ttl rr (min (Ttl (Header rr)) c)) (Answer m)
   \<and> Ns (rewriteToMinimalTTLs m c)
     = map (\<lambda>rr. set_Ttl rr (min (Ttl (Header rr)) c)) (Ns m)
   \<and> Extra (rewriteToMinimalTTLs m c)
     = map (\<lambda>rr. if Rrtype (Header rr) = TypeOPT then rr
                  else set_Ttl rr (min (Ttl (Header rr)) c)) (Extra m)
   \<and> rewriteToMinimalTTLs m c
     = m\<lparr>Answer := Answer (rewriteToMinimalTTLs m c), Ns := Ns (rewriteToMinimalTTLs m c),
         Extra := Extra (rewriteToMinimalTTLs m c)\<rparr>
   \<and> list_all2 (\<lambda>a b. Ttl (Header b) \<le> Ttl (Header a))
        (Answer m @ Ns m @ Extra m)
        (Answer (rewriteToMinimalTTLs m c) @ Ns (rewriteToMinimalTTLs m c)
           @ Extra (rewriteToMinimalTTLs m c))
   \<and> (now w < deadline \<and> Select upstream w = Some host
        \<and> exchange_loop e host req (w\<lparr>trace := trace w @ [EvSelect]\<rparr>) = Some (res, w1)
        \<and> res_err res = None \<and> res_reply res = Some m \<and> state_Match e req m
        \<and> urlInitialInProgress r w1 = (Inr inprogress, w2)
      \<longrightarrow> dispatch e r upstream req deadline upstreamErr w
            = Some (Returned 0 None,
                    WriteMsg (if inprogress
                              then rewriteToMinimalTTLs m MinimalDefaultTTL_seconds
                              else m) w2))"
proof -
  have sections: "Answer (rewriteToMinimalTTLs m c) = rewrite_section (Answer m) c"
    "Ns (rewriteToMinimalTTLs m c) = rewrite_section (Ns m) c"
    "Extra (rewriteToMinimalTTLs m c) = rewrite_extra (Extra m) c"
    by (simp_all add: rewriteToMinimalTTLs_def)
  have le: "list_all2 (\<lambda>a b. Ttl (Header b) \<le> Ttl (Header a))
        (Answer m @ Ns m @ Extra m)
        (rewrite_section (Answer m) c @ rewrite_section (Ns m) c @ rewrite_extra (Extra m) c)"
    by (intro list_all2_appendI rewrite_section_le rewrite_extra_le)
  have rest: "rewriteToMinimalTTLs m c
     = m\<lparr>Answer := rewrite_section (Answer m) c, Ns := rewrite_section (Ns m) c,
         Extra := rewrite_extra (Extra m) c\<rparr>"
    by (simp add: rewriteToMinimalTTLs_def)
  have served: "dispatch e r upstream req deadline upstreamErr w
            = Some (Returned 0 None,
                    WriteMsg (if inprogress
                              then rewriteToMinimalTTLs m MinimalDefaultTTL_seconds
                              else m) w2)"
    if "now w < deadline" "Select upstream w = Some host"
       "exchange_loop e host req (w\<lparr>trace := trace w @ [EvSelect]\<rparr>) = Some (res, w1)"
       "res_err res = None" "res_reply res = Some m" "state_Match e req m"
       "urlInitialInProgress r w1 = (Inr inprogress, w2)"
    using dispatch_success[OF that(1-4)] that(5-7)
    by (simp add: deliver_def Let_def)
  show ?thesis
    unfolding sections
    using le rest served
    by (simp only: rewrite_section_map rewrite_extra_map simp_thms) blast
qed

theorem rewriteToMinimalTTLs_clamps_witness:
  "Answer (rewriteToMinimalTTLs ex_reply 300) = [ex_rr 1 10, ex_rr 1 300, ex_rr 1 300]
   \<and> Extra (rewriteToMinimalTTLs ex_reply 300) = [ex_rr 41 32768]
   \<and> dispatch (ex_env (exch_ok ex_reply)) (ex_router ex_pool_busy) ex_pool_busy ex_req 15000
        None (ex_world False)
      = Some (Returned 0 None,
              WriteMsg (rewriteToMinimalTTLs ex_reply 5)
                ((ex_world False)\<lparr>now := 20, trace := [EvSelect, EvExchange 0 None]\<rparr>))"
proof -
  let ?e = "ex_env (exch_ok ex_reply)"
  let ?w = "ex_world False"
  let ?ws = "?w\<lparr>trace := trace ?w @ [EvSelect]\<rparr>"
  let ?wx = "?w\<lparr>now := 20, trace := [EvSelect, EvExchange 0 None]\<rparr>"
  have a1: "now ?w < 15000" by (simp add: ex_world_def)
  have a2: "Select ex_pool_busy ?w = Some 0" by (simp add: ex_pool_busy_def ex_pool_def)
  have a3: "exchange_loop ?e 0 ex_req ?ws = Some (exch_ok ex_reply 0 ex_req ?ws, ?wx)"
    by (rule ex_exchange_ok) (simp add: ex_reply_def new_Msg_def)
  have a4: "res_err (exch_ok ex_reply 0 ex_req ?ws) = None"
    and a5: "res_reply (exch_ok ex_reply 0 ex_req ?ws) = Some ex_reply"
    by (simp_all add: exch_ok_def)
  have a6: "state_Match ?e ex_req ex_reply"
    by (simp add: ex_env_def ex_Match_def ex_Name_def ex_reply_def ex_req_def new_Msg_def)
  have a7: "urlInitialInProgress (ex_router ex_pool_busy) ?wx = (Inr True, ?wx)"
    by (simp add: urlInitialInProgress_def ex_router_def ex_pool_busy_def ex_pool_def ex_world_def)
  note inst = rewriteToMinimalTTLs_clamps[of ex_reply 300 ?w 15000 ex_pool_busy 0 ?e ex_req
      "exch_ok ex_reply 0 ex_req ?ws" ?wx "ex_router ex_pool_busy" True ?wx None]
  from inst a1 a2 a3 a4 a5 a6 a7 show ?thesis
    by (simp add: ex_reply_def new_Msg_def ex_rr_def set_Ttl_def TypeOPT_def
          MinimalDefaultTTL_seconds_def)
qed

subsection \<open>The population flag\<close>

lemma initial_scan_Reloadable:
  "initial_scan (map Reloadable ups) = Inr (list_ex (\<lambda>u. initialCount u \<noteq> 0) ups)"
  by (induction ups) simp_all

lemma run_task_initialFinished:
  "initialFinished (run_task t w) = initialFinished w"
  by (simp add: run_task_def add_fails_def Let_def)

text \<open>
  C8. \<open>urlInitialInProgress\<close> is a one-way latch. With the flag set it returns false and
  leaves the world as it is, whatever the pools and their counters are. With the flag
  unset and a list of \<open>*reloadableUpstream\<close> pools, it returns true when some pool's
  \<open>initialCount\<close> is not zero, and otherwise sets the flag and returns false. After the
  flag has been set the next call returns false for any pool list, and nothing the router
  does (the check itself, \<open>healthCheck\<close>, its goroutine, the inner loop, a whole
  \<open>ServeDNS\<close> call) unsets it.
\<close>

theorem population_flag_latch:
  "(initialFinished w \<noteq> 0 \<longrightarrow> urlInitialInProgress r w = (Inr False, w))
   \<and> (initialFinished w = 0 \<and> Upstreams r = Some (map Reloadable ups) \<longrightarrow>
        urlInitialInProgress r w
          = (if list_ex (\<lambda>u. initialCount u \<noteq> 0) ups then (Inr True, w)
             else (Inr False, w\<lparr>initialFinished := 1\<rparr>)))
   \<and> urlInitialInProgress r2 (w\<lparr>initialFinished := 1\<rparr>) = (Inr False, w\<lparr>initialFinished := 1\<rparr>)
   \<and> (initialFinished w \<noteq> 0 \<longrightarrow>
        initialFinished (snd (urlInitialInProgress r w)) \<noteq> 0
        \<and> initialFinished (healthCheck up h w) \<noteq> 0
        \<and> initialFinished (run_task t w) \<noteq> 0
        \<and> (exchange_loop e h req w = Some (res, w1) \<longrightarrow> initialFinished w1 \<noteq> 0)
        \<and> (ServeDNS e r req w = Some (out, w2) \<longrightarrow> initialFinished w2 \<noteq> 0))"
proof -
  have set_flag: "urlInitialInProgress r w = (Inr False, w)" if "initialFinished w \<noteq> 0" for r w
    using that by (simp add: urlInitialInProgress_def)
  have scan: "urlInitialInProgress r w
          = (if list_ex (\<lambda>u. initialCount u \<noteq> 0) ups then (Inr True, w)
             else (Inr False, w\<lparr>initialFinished := 1\<rparr>))"
    if "initialFinished w = 0" "Upstreams r = Some (map Reloadable ups)"
    using that by (simp add: urlInitialInProgress_def initial_scan_Reloadable)
  have again: "urlInitialInProgress r2 (w\<lparr>initialFinished := 1\<rparr>)
                 = (Inr False, w\<lparr>initialFinished := 1\<rparr>)"
    by (rule set_flag) simp
  have serve: "initialFinished w2 \<noteq> 0"
    if f: "initialFinished w \<noteq> 0" and run: "ServeDNS e r req w = Some (out, w2)"
  proof (cases "match r (state_Name e req)")
    case (Inl p)
    with run f show ?thesis by (auto simp: ServeDNS_def)
  next
    case (Inr found)
    show ?thesis
    proof (cases found)
      case None
      with Inr run f show ?thesis
        by (auto simp: ServeDNS_def NextOrFailure_def split: option.splits prod.splits)
    next
      case (Some u)
      show ?thesis
      proof (cases u)
        case (Foreign m)
        with Some Inr run f show ?thesis by (auto simp: ServeDNS_def)
      next
        case (Reloadable upstream)
        with Some Inr run
        have "dispatch e r upstream req (now w + defaultTimeout) None w = Some (out, w2)"
          by (simp add: ServeDNS_def)
        from dispatch_frame[OF this] f show ?thesis by simp
      qed
    qed
  qed
  have inner: "initialFinished w1 \<noteq> 0"
    if "initialFinished w \<noteq> 0" "exchange_loop e h req w = Some (res, w1)"
    using exchange_loop_frame[OF that(2)] that(1) by simp
  show ?thesis
    using set_flag[of w r] scan again serve inner
    by (simp add: healthCheck_frame run_task_initialFinished)
qed

theorem population_flag_latch_witness:
  "urlInitialInProgress (ex_router ex_pool_busy) (ex_world False) = (Inr True, ex_world False)
   \<and> urlInitialInProgress (ex_router ex_pool) (ex_world False) = (Inr False, ex_world_finished)
   \<and> urlInitialInProgress (ex_router ex_pool_busy) ex_world_finished = (Inr False, ex_world_finished)
   \<and> initialFinished (healthCheck ex_pool 0 ex_world_finished) = 1
   \<and> initialFinished (run_task \<lparr>task_uh = 0, task_fails = 3, task_wake = 2000\<rparr> ex_world_finished) = 1
   \<and> ServeDNS (ex_env exch_fail) (ex_router ex_pool_empty) ex_req ex_world_finished
      = Some (Returned 2 (Some errNoHealthy), ex_world_finished\<lparr>trace := [EvSelect]\<rparr>)
   \<and> initialFinished (ex_world_finished\<lparr>trace := [EvSelect]\<rparr>) = 1"
proof -
  have f0: "initialFinished (ex_world False) = 0"
    by (simp add: ex_world_def)
  have f1: "initialFinished ex_world_finished \<noteq> 0"
    "ex_world_finished = (ex_world False)\<lparr>initialFinished := 1\<rparr>"
    by (simp_all add: ex_world_finished_def)
  have u: "Upstreams (ex_router p) = Some (map Reloadable [p])" for p
    by (simp add: ex_router_def)
  have m: "match (ex_router ex_pool_empty) (state_Name (ex_env exch_fail) ex_req)
             = Inr (Some (Reloadable ex_pool_empty))"
    by (rule ex_match) (simp add: ex_pool_empty_def ex_pool_def)
  have run: "ServeDNS (ex_env exch_fail) (ex_router ex_pool_empty) ex_req ex_world_finished
      = Some (Returned 2 (Some errNoHealthy), ex_world_finished\<lparr>trace := [EvSelect]\<rparr>)"
    unfolding ServeDNS_matched[OF m]
    by (subst dispatch_no_host)
       (simp_all add: defaultTimeout_def ex_pool_empty_def RcodeServerFailure_def
          ex_world_finished_def ex_world_def)
  note busy = population_flag_latch[of "ex_world False" "ex_router ex_pool_busy" "[ex_pool_busy]"]
  note idle = population_flag_latch[of "ex_world False" "ex_router ex_pool" "[ex_pool]"]
  note later = population_flag_latch[of ex_world_finished "ex_router ex_pool_busy" "[ex_pool_busy]"
      "ex_router ex_pool_busy" ex_pool 0 "\<lparr>task_uh = 0, task_fails = 3, task_wake = 2000\<rparr>"]
  note serve = population_flag_latch[of ex_world_finished "ex_router ex_pool_empty" "[]"
      "ex_router ex_pool_empty" ex_pool 0 "\<lparr>task_uh = 0, task_fails = 3, task_wake = 2000\<rparr>"
      "ex_env exch_fail" ex_req _ _ "Returned 2 (Some errNoHealthy)"
      "ex_world_finished\<lparr>trace := [EvSelect]\<rparr>"]
  have c1: "urlInitialInProgress (ex_router ex_pool_busy) (ex_world False) = (Inr True, ex_world False)"
    using busy f0 u by (simp add: ex_pool_busy_def)
  have c2: "urlInitialInProgress (ex_router ex_pool) (ex_world False) = (Inr False, ex_world_finished)"
    using idle f0 u by (simp add: ex_pool_def f1(2))
  have c3: "urlInitialInProgress (ex_router ex_pool_busy) ex_world_finished = (Inr False, ex_world_finished)"
    using later f1(1) by simp
  have c4: "initialFinished (healthCheck ex_pool 0 ex_world_finished) = 1"
    by (simp add: healthCheck_frame ex_world_finished_def)
  have c5: "initialFinished (run_task \<lparr>task_uh = 0, task_fails = 3, task_wake = 2000\<rparr> ex_world_finished) = 1"
    by (simp add: run_task_initialFinished ex_world_finished_def)
  have c7: "initialFinished (ex_world_finished\<lparr>trace := [EvSelect]\<rparr>) = 1"
    by (simp add: ex_world_finished_def)
  from c1 c2 c3 c4 c5 run c7 show ?thesis by simp
qed

subsection \<open>Matching a name to a pool\<close>

lemma match_loop_find:
  "match_loop ups name = find (\<lambda>up. Upstream_Match up name) ups"
  by (induction ups) simp_all

lemma match_loop_first:
  assumes "list_all (\<lambda>p. \<not> Upstream_Match p name) before" and "Upstream_Match up name"
  shows "match_loop (before @ up # after) name = Some up"
  using assms by (induction before) simp_all

lemma match_loop_none:
  "match_loop ups name = None \<longleftrightarrow> list_all (\<lambda>p. \<not> Upstream_Match p name) ups"
  by (induction ups) simp_all

text \<open>
  C5. \<open>match\<close> strips the trailing dot of a name longer than one byte and returns the
  first pool of the list whose \<open>Match\<close> accepts the result: a pool that accepts it is
  returned when no pool before it does, whatever comes after it; no pool is returned
  exactly when none accepts it. When no pool matches the request's name, \<open>ServeDNS\<close>
  hands the request to \<open>plugin.NextOrFailure\<close>: the result is the next handler's, the only
  call made is the one to that handler (no selection, no exchange); without a next handler
  the result is a server failure.
\<close>

theorem match_first_pool:
  assumes "Upstreams r = Some ups"
    and "n = (if length name > 1 then removeTrailingDot name else name)"
  shows "n = (if length name > 1 \<and> last name = CHR ''.'' then butlast name else name)
     \<and> match r name = Inr (find (\<lambda>up. Upstream_Match up n) ups)
     \<and> (ups = before @ up # after \<and> list_all (\<lambda>p. \<not> Upstream_Match p n) before
          \<and> Upstream_Match up n \<longrightarrow> match r name = Inr (Some up))
     \<and> (match r name = Inr None \<longleftrightarrow> list_all (\<lambda>p. \<not> Upstream_Match p n) ups)
     \<and> (match r (state_Name e req) = Inr None \<longrightarrow>
          ServeDNS e r req w = Some (NextOrFailure (pluginName e) (Next r) req w)
          \<and> (case Next r of
                Some handler \<Rightarrow>
                  ServeDNS e r req w
                    = Some (Returned (fst (handler req w)) (snd (handler req w)),
                            w\<lparr>trace := trace w @ [EvNext]\<rparr>)
              | None \<Rightarrow>
                  ServeDNS e r req w
                    = Some (Returned RcodeServerFailure (Some (errNoNextPlugin (pluginName e))),
                            w)))"
proof -
  have norm: "n = (if length name > 1 \<and> last name = CHR ''.'' then butlast name else name)"
    using assms(2) by (auto simp: removeTrailingDot_def)
  have m: "match r name = Inr (match_loop ups n)"
    using assms by (simp add: match_def Let_def)
  have first: "match r name = Inr (Some up)"
    if "ups = before @ up # after" "list_all (\<lambda>p. \<not> Upstream_Match p n) before"
       "Upstream_Match up n"
    using m that match_loop_first[of n before up after] by simp
  have none: "match r name = Inr None \<longleftrightarrow> list_all (\<lambda>p. \<not> Upstream_Match p n) ups"
    using m by (simp add: match_loop_none)
  have "next": "ServeDNS e r req w = Some (NextOrFailure (pluginName e) (Next r) req w)
          \<and> (case Next r of
                Some handler \<Rightarrow>
                  ServeDNS e r req w
                    = Some (Returned (fst (handler req w)) (snd (handler req w)),
                            w\<lparr>trace := trace w @ [EvNext]\<rparr>)
              | None \<Rightarrow>
                  ServeDNS e r req w
                    = Some (Returned RcodeServerFailure (Some (errNoNextPlugin (pluginName e))),
                            w))"
    if "match r (state_Name e req) = Inr None"
    using that by (simp add: ServeDNS_def NextOrFailure_def split: option.splits prod.splits)
  from norm m first none "next" show ?thesis
    by (simp only: match_loop_find simp_thms) blast
qed

theorem match_first_pool_witness:
  "match ex_router2 ''example.org.'' = Inr (Some (Reloadable ex_pool))
   \<and> Upstream_Match (Reloadable ex_pool_b) ''example.org''
   \<and> match ex_router2 ''example.net.'' = Inr None
   \<and> ServeDNS (ex_env exch_fail) ex_router2 ex_req_other (ex_world False)
      = Some (Returned 0 None, (ex_world False)\<lparr>trace := [EvNext]\<rparr>)"
proof -
  have u: "Upstreams ex_router2 = Some ([] @ Reloadable ex_pool # [Reloadable ex_pool_b])"
    by (simp add: ex_router2_def)
  have n1: "''example.org'' = (if length ''example.org.'' > 1
                                then removeTrailingDot ''example.org.'' else ''example.org.'')"
    by (simp add: removeTrailingDot_def)
  have n2: "''example.net'' = (if length ''example.net.'' > 1
                                then removeTrailingDot ''example.net.'' else ''example.net.'')"
    by (simp add: removeTrailingDot_def)
  have nm: "state_Name (ex_env exch_fail) ex_req_other = ''example.net.''"
    by (simp add: ex_env_def ex_Name_def ex_req_other_def ex_req_def ex_question_def)
  have a: "Upstream_Match (Reloadable ex_pool) ''example.org''"
    and b: "Upstream_Match (Reloadable ex_pool_b) ''example.org''"
    by (simp_all add: ex_pool_def ex_pool_b_def)
  have c: "list_all (\<lambda>p. \<not> Upstream_Match p ''example.net'')
             ([] @ Reloadable ex_pool # [Reloadable ex_pool_b])"
    by (simp add: ex_pool_def ex_pool_b_def)
  note first = match_first_pool[OF u n1, of "[]" "Reloadable ex_pool" "[Reloadable ex_pool_b]"]
  note none = match_first_pool[OF u n2, of "[]" "Reloadable ex_pool" "[Reloadable ex_pool_b]"
      "ex_env exch_fail" ex_req_other "ex_world False"]
  from first a have c1: "match ex_router2 ''example.org.'' = Inr (Some (Reloadable ex_pool))"
    by simp
  from none c have c3: "match ex_router2 ''example.net.'' = Inr None"
    by simp
  from c3 nm
  have s: "match ex_router2 (state_Name (ex_env exch_fail) ex_req_other) = Inr None"
    by simp
  have nx: "Next ex_router2 = Some ex_next"
    by (simp add: ex_router2_def)
  from none s
  have "case Next ex_router2 of
          Some handler \<Rightarrow>
            ServeDNS (ex_env exch_fail) ex_router2 ex_req_other (ex_world False)
              = Some (Returned (fst (handler ex_req_other (ex_world False)))
                        (snd (handler ex_req_other (ex_world False))),
                      (ex_world False)\<lparr>trace := trace (ex_world False) @ [EvNext]\<rparr>)
        | None \<Rightarrow>
            ServeDNS (ex_env exch_fail) ex_router2 ex_req_other (ex_world False)
              = Some (Returned RcodeServerFailure
                        (Some (errNoNextPlugin (pluginName (ex_env exch_fail)))),
                      ex_world False)"
    by blast
  then have "ServeDNS (ex_env exch_fail) ex_router2 ex_req_other (ex_world False)
      = Some (Returned 0 None, (ex_world False)\<lparr>trace := [EvNext]\<rparr>)"
    by (simp add: nx ex_next_def ex_world_def)
  with c1 b c3 show ?thesis by simp
qed

subsection \<open>Closed cached connections\<close>

lemma attempts_simps:
  "attempts h (w\<lparr>trace := trace w @ [EvSelect]\<rparr>) = attempts h w"
  "attempts h (w\<lparr>now := t, trace := trace w @ [EvExchange h er]\<rparr>) = Suc (attempts h w)"
  by (simp_all add: attempts_def)

text \<open>
  A host whose attempts number \<open>c, \<dots>, c + K - 1\<close> hit a closed connection and whose
  attempt number \<open>c + K\<close> does not: the inner loop makes exactly \<open>K + 1\<close> exchanges.
\<close>

lemma exchange_loop_closed_K:
  assumes "\<forall>v. attempts host v < c + K \<longrightarrow> res_err (Exchange e host req v) = Some errCachedConnClosed"
    and "\<forall>v. attempts host v = c + K \<longrightarrow> res_err (Exchange e host req v) \<noteq> Some errCachedConnClosed"
    and "attempts host w = c"
  shows "\<exists>v w1. exchange_loop e host req w = Some (Exchange e host req v, w1)
           \<and> attempts host v = c + K
           \<and> trace w1 = trace w @ replicate K (EvExchange host (Some errCachedConnClosed))
                           @ [EvExchange host (res_err (Exchange e host req v))]
           \<and> heap w1 = heap w \<and> spawned w1 = spawned w"
  using assms
proof (induction K arbitrary: w c)
  case 0
  then have nc: "res_err (Exchange e host req w) \<noteq> Some errCachedConnClosed"
    by simp
  let ?w1 = "w\<lparr>now := now w + res_rtt (Exchange e host req w),
              trace := trace w @ [EvExchange host (res_err (Exchange e host req w))],
              warnings := warnings w @
                (if res_reply (Exchange e host req w) \<noteq> None
                    \<and> Truncated (the (res_reply (Exchange e host req w)))
                    \<and> \<not> forceTcp (transport (heap w host)) \<and> preferUdp (transport (heap w host))
                 then [WarnRetryTcpTODO] else [])\<rparr>"
  show ?case
    using exchange_loop_not_closed[OF nc] 0(3) by (intro exI[of _ w] exI[of _ ?w1]) simp
next
  case (Suc K)
  let ?w' = "w\<lparr>now := now w + res_rtt (Exchange e host req w),
               trace := trace w @ [EvExchange host (Some errCachedConnClosed)]\<rparr>"
  from Suc.prems have cl: "res_err (Exchange e host req w) = Some errCachedConnClosed"
    by simp
  have a: "attempts host ?w' = Suc c"
    using Suc.prems(3) by (simp add: attempts_simps)
  have "\<exists>v w1. exchange_loop e host req ?w' = Some (Exchange e host req v, w1)
           \<and> attempts host v = Suc c + K
           \<and> trace w1 = trace ?w' @ replicate K (EvExchange host (Some errCachedConnClosed))
                           @ [EvExchange host (res_err (Exchange e host req v))]
           \<and> heap w1 = heap ?w' \<and> spawned w1 = spawned ?w'"
    using Suc.prems(1,2) a by (intro Suc.IH) simp_all
  then obtain v w1 where
    r: "exchange_loop e host req ?w' = Some (Exchange e host req v, w1)"
    and v: "attempts host v = Suc c + K"
    and t: "trace w1 = trace ?w' @ replicate K (EvExchange host (Some errCachedConnClosed))
                           @ [EvExchange host (res_err (Exchange e host req v))]"
    and f: "heap w1 = heap ?w'" "spawned w1 = spawned ?w'"
    by blast
  from t have "trace w1 = trace w @ replicate (Suc K) (EvExchange host (Some errCachedConnClosed))
                           @ [EvExchange host (res_err (Exchange e host req v))]"
    by simp
  with r v f exchange_loop_closed[OF cl] show ?case
    by (intro exI[of _ v] exI[of _ w1]) simp
qed

text \<open>
  C1. Let the selected host's next \<open>K\<close> attempts hit a closed cached connection and the
  attempt after them succeed with a reply. Then the turn makes one selection followed by
  exactly \<open>K + 1\<close> exchanges, all on that host, and goes on to deliver the reply; the
  failure counters and the list of goroutines are as they were before the turn, also
  after the delivery, which adds at most a write to the trace. This holds for any turn
  that starts before the deadline, and so for \<open>ServeDNS\<close>.
\<close>

theorem closed_connection_retried_on_same_host:
  assumes "Select upstream w = Some host"
    and "\<forall>v. attempts host v < attempts host w + K \<longrightarrow>
              res_err (Exchange e host req v) = Some errCachedConnClosed"
    and "\<forall>v. attempts host v = attempts host w + K \<longrightarrow>
              res_err (Exchange e host req v) = None \<and> res_reply (Exchange e host req v) = Some rep"
  shows "\<exists>w1. trace w1 = trace w @ [EvSelect]
                  @ replicate K (EvExchange host (Some errCachedConnClosed))
                  @ [EvExchange host None]
           \<and> attempts host w1 = attempts host w + K + 1
           \<and> heap w1 = heap w \<and> spawned w1 = spawned w
           \<and> heap (snd (deliver e r req (Some rep) w1)) = heap w
           \<and> spawned (snd (deliver e r req (Some rep) w1)) = spawned w
           \<and> (trace (snd (deliver e r req (Some rep) w1)) = trace w1
                \<or> (\<exists>m. trace (snd (deliver e r req (Some rep) w1)) = trace w1 @ [EvWriteMsg m]))
           \<and> (now w < deadline \<longrightarrow>
                dispatch e r upstream req deadline upstreamErr w
                  = Some (deliver e r req (Some rep) w1))
           \<and> (match r (state_Name e req) = Inr (Some (Reloadable upstream)) \<longrightarrow>
                ServeDNS e r req w = Some (deliver e r req (Some rep) w1))"
proof -
  let ?ws = "w\<lparr>trace := trace w @ [EvSelect]\<rparr>"
  have "\<exists>v w1. exchange_loop e host req ?ws = Some (Exchange e host req v, w1)
           \<and> attempts host v = attempts host w + K
           \<and> trace w1 = trace ?ws @ replicate K (EvExchange host (Some errCachedConnClosed))
                           @ [EvExchange host (res_err (Exchange e host req v))]
           \<and> heap w1 = heap ?ws \<and> spawned w1 = spawned ?ws"
    using assms(2,3) by (intro exchange_loop_closed_K) (simp_all add: attempts_simps)
  then obtain v w1 where
    run: "exchange_loop e host req ?ws = Some (Exchange e host req v, w1)"
    and v: "attempts host v = attempts host w + K"
    and t: "trace w1 = trace ?ws @ replicate K (EvExchange host (Some errCachedConnClosed))
                           @ [EvExchange host (res_err (Exchange e host req v))]"
    and f: "heap w1 = heap w" "spawned w1 = spawned w"
    by auto
  from v assms(3) have ok: "res_err (Exchange e host req v) = None"
    and rp: "res_reply (Exchange e host req v) = Some rep"
    by simp_all
  from t ok have t1: "trace w1 = trace w @ [EvSelect]
                  @ replicate K (EvExchange host (Some errCachedConnClosed))
                  @ [EvExchange host None]"
    by simp
  then have n: "attempts host w1 = attempts host w + K + 1"
    by (simp add: attempts_def)
  obtain out w2 where d: "deliver e r req (Some rep) w1 = (out, w2)"
    by (cases "deliver e r req (Some rep) w1")
  note df = deliver_frame[OF d]
  have turn: "dispatch e r upstream req dl uerr w = Some (deliver e r req (Some rep) w1)"
    if "now w < dl" for dl uerr
    using dispatch_success[OF that assms(1) run ok] rp by simp
  have "now w < now w + defaultTimeout"
    by (simp add: defaultTimeout_def)
  from turn[OF this]
  have serve: "match r (state_Name e req) = Inr (Some (Reloadable upstream)) \<longrightarrow>
                ServeDNS e r req w = Some (deliver e r req (Some rep) w1)"
    by (simp add: ServeDNS_matched)
  show ?thesis
    using t1 n f df d turn[of deadline upstreamErr] serve
    by (intro exI[of _ w1]) simp
qed


theorem closed_connection_retried_on_same_host_witness:
  "\<exists>w1. trace w1 = [EvSelect, EvExchange 0 (Some errCachedConnClosed),
                     EvExchange 0 (Some errCachedConnClosed), EvExchange 0 None]
      \<and> attempts 0 w1 = 3
      \<and> fails (heap w1 0) = 0 \<and> spawned w1 = []
      \<and> ServeDNS (ex_env (exch_closed_then_ok 2)) (ex_router ex_pool) ex_req (ex_world False)
          = Some (deliver (ex_env (exch_closed_then_ok 2)) (ex_router ex_pool) ex_req
                    (Some ex_reply) w1)"
proof -
  let ?e = "ex_env (exch_closed_then_ok 2)"
  let ?w = "ex_world False"
  have a0: "attempts 0 ?w = 0"
    by (simp add: attempts_def ex_world_def)
  have a1: "Select ex_pool ?w = Some 0"
    by (simp add: ex_pool_def)
  have a2: "\<forall>v. attempts 0 v < attempts 0 ?w + 2 \<longrightarrow>
              res_err (Exchange ?e 0 ex_req v) = Some errCachedConnClosed"
    by (simp add: a0 ex_env_def exch_closed_then_ok_def exch_closed_def)
  have a3: "\<forall>v. attempts 0 v = attempts 0 ?w + 2 \<longrightarrow>
              res_err (Exchange ?e 0 ex_req v) = None
              \<and> res_reply (Exchange ?e 0 ex_req v) = Some ex_reply"
    by (simp add: a0 ex_env_def exch_closed_then_ok_def exch_ok_def)
  have m: "match (ex_router ex_pool) (state_Name ?e ex_req) = Inr (Some (Reloadable ex_pool))"
    by (rule ex_match) (simp add: ex_pool_def)
  from closed_connection_retried_on_same_host[OF a1 a2 a3, of "ex_router ex_pool"]
  obtain w1 where
    "trace w1 = trace ?w @ [EvSelect] @ replicate 2 (EvExchange 0 (Some errCachedConnClosed))
                  @ [EvExchange 0 None]"
    "attempts 0 w1 = attempts 0 ?w + 2 + 1" "heap w1 = heap ?w" "spawned w1 = spawned ?w"
    "match (ex_router ex_pool) (state_Name ?e ex_req) = Inr (Some (Reloadable ex_pool)) \<longrightarrow>
       ServeDNS ?e (ex_router ex_pool) ex_req ?w
         = Some (deliver ?e (ex_router ex_pool) ex_req (Some ex_reply) w1)"
    by blast
  with m a0 show ?thesis
    by (intro exI[of _ w1]) (simp add: ex_world_def ex_host_def numeral_2_eq_2)
qed

subsection \<open>The deadline\<close>

text \<open>A transport that reports a closed connection for ever never lets the inner loop return.\<close>

lemma exchange_loop_always_closed:
  assumes "\<forall>v. res_err (Exchange e host req v) = Some errCachedConnClosed"
  shows "exchange_loop e host req w = None"
proof (rule ccontr)
  assume "exchange_loop e host req w \<noteq> None"
  then obtain y where "exchange_loop e host req w = Some y"
    by auto
  then have "\<not> (\<forall>v. res_err (Exchange e host req v) = Some errCachedConnClosed)"
  proof (induction rule: exchange_loop.raw_induct[rotated, consumes 1])
    case (1 loop e host req w y)
    show ?case
    proof
      assume all: "\<forall>v. res_err (Exchange e host req v) = Some errCachedConnClosed"
      with 1(2) have "loop e host req
           (w\<lparr>now := now w + res_rtt (Exchange e host req w),
              trace := trace w @ [EvExchange host (res_err (Exchange e host req w))]\<rparr>) = Some y"
        by (simp add: Let_def)
      from 1(1)[OF this] all show False by simp
    qed
  qed
  with assms show False by simp
qed

lemma dispatch_never_returns:
  assumes "now w < deadline" and "Select upstream w = Some host"
    and "\<forall>v. res_err (Exchange e host req v) = Some errCachedConnClosed"
  shows "dispatch e r upstream req deadline upstreamErr w = None"
  using assms(1,2) exchange_loop_always_closed[OF assms(3)]
  by (subst dispatch.simps) (simp add: Let_def)

text \<open>
  C2 as stated fails for the closed-connection error: against a transport whose cached
  connections are always closed the inner loop never hands control back to the deadline
  check, and \<open>ServeDNS\<close> does not return.
\<close>

theorem closed_connection_forever_counterexample:
  "ServeDNS (ex_env exch_closed) (ex_router ex_pool) ex_req (ex_world False) = None"
proof -
  have m: "match (ex_router ex_pool) (state_Name (ex_env exch_closed) ex_req)
             = Inr (Some (Reloadable ex_pool))"
    by (rule ex_match) (simp add: ex_pool_def)
  show ?thesis
    unfolding ServeDNS_matched[OF m]
    by (rule dispatch_never_returns[where host = 0])
       (simp_all add: defaultTimeout_def ex_pool_def ex_env_def exch_closed_def)
qed

text \<open>
  A pool that always has a host, against transports that always fail with an error other
  than the closed connection and take between one millisecond and \<open>D\<close>: every turn
  that starts before the deadline leads to the exit after the loop.
\<close>

lemma dispatch_always_failing:
  assumes sel: "\<forall>v. Select upstream v \<noteq> None"
    and fail: "\<forall>h v. res_err (Exchange e h req v) \<noteq> None
                      \<and> res_err (Exchange e h req v) \<noteq> Some errCachedConnClosed"
    and pos: "\<forall>h v. 0 < res_rtt (Exchange e h req v)"
    and bound: "\<forall>h v. res_rtt (Exchange e h req v) \<le> D"
    and live: "now w < deadline"
  shows "\<exists>h er w'. dispatch e r upstream req deadline upstreamErr w
                      = Some (Returned RcodeServerFailure (Some er), w')
           \<and> trace w' \<noteq> [] \<and> last (trace w') = EvExchange h (Some er)
           \<and> deadline \<le> now w' \<and> now w' < deadline + D"
  using live
proof (induction "deadline - now w" arbitrary: w upstreamErr rule: less_induct)
  case less
  let ?ws = "w\<lparr>trace := trace w @ [EvSelect]\<rparr>"
  from sel have "Select upstream w \<noteq> None"
    by blast
  then obtain host where s: "Select upstream w = Some host"
    by blast
  let ?res = "Exchange e host req ?ws"
  from fail have "res_err ?res \<noteq> None" and nc: "res_err ?res \<noteq> Some errCachedConnClosed"
    by blast+
  then obtain er where er: "res_err ?res = Some er"
    by blast
  let ?w1 = "?ws\<lparr>now := now ?ws + res_rtt ?res,
              trace := trace ?ws @ [EvExchange host (res_err ?res)],
              warnings := warnings ?ws @
                (if res_reply ?res \<noteq> None \<and> Truncated (the (res_reply ?res))
                    \<and> \<not> forceTcp (transport (heap ?ws host)) \<and> preferUdp (transport (heap ?ws host))
                 then [WarnRetryTcpTODO] else [])\<rparr>"
  have x: "exchange_loop e host req ?ws = Some (?res, ?w1)"
    by (rule exchange_loop_not_closed[OF nc])
  let ?w2 = "if maxFails upstream \<noteq> 0
             then healthCheck upstream host (?w1\<lparr>warnings := warnings ?w1 @ [WarnExchangeFailed er]\<rparr>)
             else ?w1"
  have step: "dispatch e r upstream req deadline upstreamErr w
                = dispatch e r upstream req deadline (Some er) ?w2"
    by (rule dispatch_failure[OF less.prems s x er])
  have n2: "now ?w2 = now w + res_rtt ?res"
    by (simp add: healthCheck_frame)
  have t2: "trace ?w2 = trace w @ [EvSelect, EvExchange host (Some er)]"
    using er by (simp add: healthCheck_frame)
  from pos have p: "0 < res_rtt ?res" by blast
  from bound have b: "res_rtt ?res \<le> D" by blast
  show ?case
  proof (cases "now ?w2 < deadline")
    case True
    have "deadline - now ?w2 < deadline - now w"
      using n2 p less.prems by simp
    from less.hyps[OF this True, of "Some er"] step show ?thesis
      by simp
  next
    case False
    from dispatch_expired[OF False, of e r upstream req er] step
    have "dispatch e r upstream req deadline upstreamErr w
            = Some (Returned RcodeServerFailure (Some er), ?w2)"
      by simp
    moreover have "trace ?w2 \<noteq> []" "last (trace ?w2) = EvExchange host (Some er)"
      using t2 by simp_all
    moreover have "deadline \<le> now ?w2" "now ?w2 < deadline + D"
      using False n2 b less.prems by simp_all
    ultimately show ?thesis by blast
  qed
qed

text \<open>
  C2, as amended. Let the pool always have a host to select, and let every exchange fail
  with an error other than the closed cached connection, taking a positive time of at most
  \<open>D\<close>. Then the request returns: for the timeout of 15 s that \<open>ServeDNS\<close> uses, and
  for any other timeout \<open>T > 0\<close> given to the loop, it ends at a time in
  \<open>[entry + T, entry + T + D)\<close> with the server-failure status and the error of the last
  exchange made.
\<close>

theorem failing_pool_ends_at_deadline:
  assumes "\<forall>v. Select upstream v \<noteq> None"
    and "\<forall>h v. res_err (Exchange e h req v) \<noteq> None
                \<and> res_err (Exchange e h req v) \<noteq> Some errCachedConnClosed"
    and "\<forall>h v. 0 < res_rtt (Exchange e h req v) \<and> res_rtt (Exchange e h req v) \<le> D"
    and "match r (state_Name e req) = Inr (Some (Reloadable upstream))"
    and "0 < T"
  shows "(\<exists>h er w'. ServeDNS e r req w = Some (Returned RcodeServerFailure (Some er), w')
            \<and> trace w' \<noteq> [] \<and> last (trace w') = EvExchange h (Some er)
            \<and> now w + defaultTimeout \<le> now w' \<and> now w' < now w + defaultTimeout + D)
       \<and> (\<exists>h er w'. dispatch e r upstream req (now w + T) upstreamErr w
                       = Some (Returned RcodeServerFailure (Some er), w')
            \<and> trace w' \<noteq> [] \<and> last (trace w') = EvExchange h (Some er)
            \<and> now w + T \<le> now w' \<and> now w' < now w + T + D)"
proof -
  have any: "\<exists>h er w'. dispatch e r upstream req (now w + t) uerr w
                       = Some (Returned RcodeServerFailure (Some er), w')
            \<and> trace w' \<noteq> [] \<and> last (trace w') = EvExchange h (Some er)
            \<and> now w + t \<le> now w' \<and> now w' < now w + t + D"
    if "0 < t" for t uerr
    using assms(1-3) that by (intro dispatch_always_failing) simp_all
  have "0 < defaultTimeout"
    by (simp add: defaultTimeout_def)
  from any[OF this, of None] any[OF assms(5), of upstreamErr] show ?thesis
    by (simp only: ServeDNS_matched[OF assms(4)] simp_thms)
qed

theorem failing_pool_ends_at_deadline_witness:
  "\<exists>h er w'. ServeDNS (ex_env exch_fail) (ex_router ex_pool) ex_req (ex_world False)
                = Some (Returned 2 (Some er), w')
      \<and> trace w' \<noteq> [] \<and> last (trace w') = EvExchange h (Some er)
      \<and> 15000 \<le> now w' \<and> now w' < 20000"
proof -
  let ?e = "ex_env exch_fail"
  have a1: "\<forall>v. Select ex_pool v \<noteq> None"
    by (simp add: ex_pool_def)
  have a2: "\<forall>h v. res_err (Exchange ?e h ex_req v) \<noteq> None
                \<and> res_err (Exchange ?e h ex_req v) \<noteq> Some errCachedConnClosed"
    by (simp add: ex_env_def exch_fail_def)
  have a3: "\<forall>h v. 0 < res_rtt (Exchange ?e h ex_req v) \<and> res_rtt (Exchange ?e h ex_req v) \<le> 5000"
    by (simp add: ex_env_def exch_fail_def)
  have m: "match (ex_router ex_pool) (state_Name ?e ex_req) = Inr (Some (Reloadable ex_pool))"
    by (rule ex_match) (simp add: ex_pool_def)
  have t: "(0::nat) < 1" by simp
  from failing_pool_ends_at_deadline[OF a1 a2 a3 m t, of "ex_world False" None]
  show ?thesis
    by (simp add: ex_world_def defaultTimeout_def RcodeServerFailure_def)
qed

subsection \<open>Counting a failure\<close>

lemma smod_failureCheck: "(k smod failureCheck = 0) = (3 dvd k)" for k :: int
  by (auto simp: failureCheck_def signed_modulo_int_def sgn_if dvd_eq_mod_eq_0 abs_if
      zmod_zminus1_eq_if split: if_splits)

text \<open>One turn against the transport that times out.\<close>

lemma ex_fail_turn:
  assumes "now v < deadline" and "Select up v = Some 0"
  shows "dispatch (ex_env exch_fail) r up ex_req deadline uerr v
     = dispatch (ex_env exch_fail) r up ex_req deadline (Some (errTransport ''i/o timeout''))
         (if maxFails up \<noteq> 0
          then healthCheck up 0
                 (v\<lparr>now := now v + 5000,
                    trace := trace v @ [EvSelect, EvExchange 0 (Some (errTransport ''i/o timeout''))],
                    warnings := warnings v @ [WarnExchangeFailed (errTransport ''i/o timeout'')]\<rparr>)
          else v\<lparr>now := now v + 5000,
                 trace := trace v @ [EvSelect, EvExchange 0 (Some (errTransport ''i/o timeout''))]\<rparr>)"
proof -
  let ?e = "ex_env exch_fail"
  let ?vs = "v\<lparr>trace := trace v @ [EvSelect]\<rparr>"
  have "res_err (Exchange ?e 0 ex_req ?vs) \<noteq> Some errCachedConnClosed"
    by (simp add: ex_env_def exch_fail_def)
  from exchange_loop_not_closed[OF this]
  have x: "exchange_loop ?e 0 ex_req ?vs
         = Some (exch_fail 0 ex_req ?vs,
                 v\<lparr>now := now v + 5000,
                   trace := trace v @ [EvSelect, EvExchange 0 (Some (errTransport ''i/o timeout''))]\<rparr>)"
    by (simp add: ex_env_def exch_fail_def)
  have er: "res_err (exch_fail 0 ex_req ?vs) = Some (errTransport ''i/o timeout'')"
    by (simp add: exch_fail_def)
  from dispatch_failure[OF assms x er, of r uerr] show ?thesis
    by simp
qed

text \<open>
  C4, as amended. For a pool whose \<open>maxFails\<close> and \<open>checkInterval\<close> are both not zero,
  a failed exchange makes the loop call \<open>healthCheck\<close> before the next turn, and
  \<open>healthCheck\<close> adds one to the failed host's counter (and to no other), and starts one
  goroutine that wakes two seconds later; when it runs, the goroutine takes one off the
  same host's counter (and no other) and then calls \<open>Check\<close> on the host exactly when the
  value the counter had after the addition is a multiple of three.
\<close>

theorem healthCheck_counts_failure:
  assumes "maxFails upstream \<noteq> 0" and "checkInterval upstream \<noteq> 0"
  shows "fails (heap (healthCheck upstream host w) host) = fails (heap w host) + 1
     \<and> (\<forall>h. h \<noteq> host \<longrightarrow> heap (healthCheck upstream host w) h = heap w h)
     \<and> spawned (healthCheck upstream host w)
         = spawned w @ [\<lparr>task_uh = host, task_fails = fails (heap w host) + 1,
                         task_wake = now w + 2000\<rparr>]
     \<and> fails (heap (run_task \<lparr>task_uh = host, task_fails = f, task_wake = t\<rparr> v) host)
         = fails (heap v host) - 1
     \<and> (\<forall>h. h \<noteq> host \<longrightarrow>
           heap (run_task \<lparr>task_uh = host, task_fails = f, task_wake = t\<rparr> v) h = heap v h)
     \<and> trace (run_task \<lparr>task_uh = host, task_fails = f, task_wake = t\<rparr> v)
         = trace v @ (if 3 dvd sint f then [EvCheck host] else [])
     \<and> (now w0 < deadline \<and> Select upstream w0 = Some host
          \<and> exchange_loop e host req (w0\<lparr>trace := trace w0 @ [EvSelect]\<rparr>) = Some (res, w)
          \<and> res_err res = Some er \<longrightarrow>
         dispatch e r upstream req deadline upstreamErr w0
           = dispatch e r upstream req deadline (Some er)
               (healthCheck upstream host (w\<lparr>warnings := warnings w @ [WarnExchangeFailed er]\<rparr>)))"
proof -
  have inc: "fails (heap (healthCheck upstream host w) host) = fails (heap w host) + 1"
    using assms by (simp add: healthCheck_def add_fails_def Let_def)
  have others: "\<forall>h. h \<noteq> host \<longrightarrow> heap (healthCheck upstream host w) h = heap w h"
    using assms by (simp add: healthCheck_def add_fails_def Let_def)
  have sp: "spawned (healthCheck upstream host w)
         = spawned w @ [\<lparr>task_uh = host, task_fails = fails (heap w host) + 1,
                         task_wake = now w + 2000\<rparr>]"
    using assms by (simp add: healthCheck_def add_fails_def Let_def defaultFailTimeout_def)
  have dec: "fails (heap (run_task \<lparr>task_uh = host, task_fails = f, task_wake = t\<rparr> v) host)
         = fails (heap v host) - 1"
    by (simp add: run_task_def add_fails_def Let_def)
  have dec_others: "\<forall>h. h \<noteq> host \<longrightarrow>
           heap (run_task \<lparr>task_uh = host, task_fails = f, task_wake = t\<rparr> v) h = heap v h"
    by (simp add: run_task_def add_fails_def Let_def)
  have chk: "trace (run_task \<lparr>task_uh = host, task_fails = f, task_wake = t\<rparr> v)
         = trace v @ (if 3 dvd sint f then [EvCheck host] else [])"
    by (simp add: run_task_def add_fails_def Let_def smod_failureCheck)
  have turn: "dispatch e r upstream req deadline upstreamErr w0
           = dispatch e r upstream req deadline (Some er)
               (healthCheck upstream host (w\<lparr>warnings := warnings w @ [WarnExchangeFailed er]\<rparr>))"
    if "now w0 < deadline" "Select upstream w0 = Some host"
       "exchange_loop e host req (w0\<lparr>trace := trace w0 @ [EvSelect]\<rparr>) = Some (res, w)"
       "res_err res = Some er"
    using dispatch_failure[OF that, of r upstreamErr] assms(1) by simp
  from inc others sp dec dec_others chk turn show ?thesis
    by blast
qed


theorem healthCheck_counts_failure_witness:
  "fails (heap (healthCheck ex_pool 0 (ex_world False)) 0) = 1
   \<and> spawned (healthCheck ex_pool 0 (ex_world False))
       = [\<lparr>task_uh = 0, task_fails = 1, task_wake = 2000\<rparr>]
   \<and> fails (heap (run_task \<lparr>task_uh = 0, task_fails = 3, task_wake = 2000\<rparr> (ex_world False)) 0)
       = - 1
   \<and> trace (run_task \<lparr>task_uh = 0, task_fails = 3, task_wake = 2000\<rparr> (ex_world False))
       = [EvCheck 0]
   \<and> trace (run_task \<lparr>task_uh = 0, task_fails = 1, task_wake = 2000\<rparr> (ex_world False)) = []
   \<and> dispatch (ex_env exch_fail) (ex_router ex_pool) ex_pool ex_req 15000 None (ex_world False)
       = dispatch (ex_env exch_fail) (ex_router ex_pool) ex_pool ex_req 15000
           (Some (errTransport ''i/o timeout''))
           (healthCheck ex_pool 0
              ((ex_world False)\<lparr>now := 5000,
                 trace := [EvSelect, EvExchange 0 (Some (errTransport ''i/o timeout''))],
                 warnings := [WarnExchangeFailed (errTransport ''i/o timeout'')]\<rparr>))"
proof -
  let ?e = "ex_env exch_fail"
  let ?w = "ex_world False"
  let ?ws = "?w\<lparr>trace := trace ?w @ [EvSelect]\<rparr>"
  let ?wx = "?w\<lparr>now := 5000,
                 trace := [EvSelect, EvExchange 0 (Some (errTransport ''i/o timeout''))]\<rparr>"
  have p: "maxFails ex_pool \<noteq> 0" "checkInterval ex_pool \<noteq> 0"
    by (simp_all add: ex_pool_def)
  have a1: "now ?w < 15000" by (simp add: ex_world_def)
  have a2: "Select ex_pool ?w = Some 0" by (simp add: ex_pool_def)
  have "res_err (Exchange ?e 0 ex_req ?ws) \<noteq> Some errCachedConnClosed"
    by (simp add: ex_env_def exch_fail_def)
  from exchange_loop_not_closed[OF this]
  have a3: "exchange_loop ?e 0 ex_req ?ws = Some (exch_fail 0 ex_req ?ws, ?wx)"
    by (simp add: ex_env_def exch_fail_def ex_world_def)
  have a4: "res_err (exch_fail 0 ex_req ?ws) = Some (errTransport ''i/o timeout'')"
    by (simp add: exch_fail_def)
  note third = healthCheck_counts_failure[OF p, of 0 ?w 3 2000 ?w]
  note first = healthCheck_counts_failure[OF p, of 0 ?wx 1 2000 ?w ?w 15000 ?e ex_req
      "exch_fail 0 ex_req ?ws" "errTransport ''i/o timeout''" "ex_router ex_pool" None]
  have c1: "fails (heap (healthCheck ex_pool 0 ?w) 0) = 1"
    and c2: "spawned (healthCheck ex_pool 0 ?w) = [\<lparr>task_uh = 0, task_fails = 1, task_wake = 2000\<rparr>]"
    and c3: "fails (heap (run_task \<lparr>task_uh = 0, task_fails = 3, task_wake = 2000\<rparr> ?w) 0) = - 1"
    and c4: "trace (run_task \<lparr>task_uh = 0, task_fails = 3, task_wake = 2000\<rparr> ?w) = [EvCheck 0]"
    using third by (simp_all add: ex_world_def ex_host_def)
  have c5: "trace (run_task \<lparr>task_uh = 0, task_fails = 1, task_wake = 2000\<rparr> ?w) = []"
    using first by (simp add: ex_world_def)
  from first a1 a2 a3 a4
  have c6: "dispatch ?e (ex_router ex_pool) ex_pool ex_req 15000 None ?w
       = dispatch ?e (ex_router ex_pool) ex_pool ex_req 15000 (Some (errTransport ''i/o timeout''))
           (healthCheck ex_pool 0
              (?wx\<lparr>warnings := warnings ?wx @ [WarnExchangeFailed (errTransport ''i/o timeout'')]\<rparr>))"
    by blast
  have "?wx\<lparr>warnings := warnings ?wx @ [WarnExchangeFailed (errTransport ''i/o timeout'')]\<rparr>
        = ?w\<lparr>now := 5000,
                 trace := [EvSelect, EvExchange 0 (Some (errTransport ''i/o timeout''))],
                 warnings := [WarnExchangeFailed (errTransport ''i/o timeout'')]\<rparr>"
    by (simp add: ex_world_def)
  with c6 c1 c2 c3 c4 c5 show ?thesis by simp
qed

text \<open>
  C4 as stated fails for a pool with \<open>maxFails = 3\<close> and \<open>checkInterval = 0\<close>: three
  exchanges fail, the host's counter stays at zero and no goroutine is started.
\<close>

theorem health_check_disabled_counterexample:
  "maxFails ex_pool_nocheck = 3
   \<and> ServeDNS (ex_env exch_fail) (ex_router ex_pool_nocheck) ex_req (ex_world False)
     = Some (Returned 2 (Some (errTransport ''i/o timeout'')),
             (ex_world False)\<lparr>now := 15000,
                trace := [EvSelect, EvExchange 0 (Some (errTransport ''i/o timeout'')),
                          EvSelect, EvExchange 0 (Some (errTransport ''i/o timeout'')),
                          EvSelect, EvExchange 0 (Some (errTransport ''i/o timeout''))],
                warnings := [WarnExchangeFailed (errTransport ''i/o timeout''),
                             WarnExchangeFailed (errTransport ''i/o timeout''),
                             WarnExchangeFailed (errTransport ''i/o timeout'')]\<rparr>)
   \<and> fails (heap (ex_world False) 0) = 0
   \<and> spawned (ex_world False) = []"
proof -
  let ?e = "ex_env exch_fail"
  let ?r = "ex_router ex_pool_nocheck"
  let ?t = "errTransport ''i/o timeout''"
  have m: "match ?r (state_Name ?e ex_req) = Inr (Some (Reloadable ex_pool_nocheck))"
    by (rule ex_match) (simp add: ex_pool_nocheck_def ex_pool_def)
  have hc: "healthCheck ex_pool_nocheck 0 v = v" for v
    by (simp add: healthCheck_def ex_pool_nocheck_def)
  have mf: "maxFails ex_pool_nocheck = 3"
    by (simp add: ex_pool_nocheck_def ex_pool_def)
  have sel: "Select ex_pool_nocheck v = Some 0" for v
    by (simp add: ex_pool_nocheck_def ex_pool_def)
  let ?w1 = "(ex_world False)\<lparr>now := 5000, trace := [EvSelect, EvExchange 0 (Some ?t)],
                warnings := [WarnExchangeFailed ?t]\<rparr>"
  let ?w2 = "(ex_world False)\<lparr>now := 10000,
                trace := [EvSelect, EvExchange 0 (Some ?t), EvSelect, EvExchange 0 (Some ?t)],
                warnings := [WarnExchangeFailed ?t, WarnExchangeFailed ?t]\<rparr>"
  let ?w3 = "(ex_world False)\<lparr>now := 15000,
                trace := [EvSelect, EvExchange 0 (Some ?t), EvSelect, EvExchange 0 (Some ?t),
                          EvSelect, EvExchange 0 (Some ?t)],
                warnings := [WarnExchangeFailed ?t, WarnExchangeFailed ?t, WarnExchangeFailed ?t]\<rparr>"
  have s1: "dispatch ?e ?r ex_pool_nocheck ex_req 15000 None (ex_world False)
          = dispatch ?e ?r ex_pool_nocheck ex_req 15000 (Some ?t) ?w1"
    by (subst ex_fail_turn) (simp_all add: sel hc mf ex_world_def)
  have s2: "dispatch ?e ?r ex_pool_nocheck ex_req 15000 (Some ?t) ?w1
          = dispatch ?e ?r ex_pool_nocheck ex_req 15000 (Some ?t) ?w2"
    by (subst ex_fail_turn) (simp_all add: sel hc mf ex_world_def)
  have s3: "dispatch ?e ?r ex_pool_nocheck ex_req 15000 (Some ?t) ?w2
          = dispatch ?e ?r ex_pool_nocheck ex_req 15000 (Some ?t) ?w3"
    by (subst ex_fail_turn) (simp_all add: sel hc mf ex_world_def)
  have s4: "dispatch ?e ?r ex_pool_nocheck ex_req 15000 (Some ?t) ?w3
          = Some (Returned 2 (Some ?t), ?w3)"
    by (subst dispatch_expired) (simp_all add: ex_world_def RcodeServerFailure_def)
  have "ServeDNS ?e ?r ex_req (ex_world False)
          = dispatch ?e ?r ex_pool_nocheck ex_req 15000 None (ex_world False)"
    unfolding ServeDNS_matched[OF m] by (simp add: defaultTimeout_def ex_world_def)
  with s1 s2 s3 s4 mf show ?thesis
    by (simp add: ex_world_def ex_host_def)
qed

end
